theory Spec2Isabelle
  imports Complex_Main "HOL-Library.Sublist"
begin

section \<open>Strings: the JavaScript library functions the code calls\<close>

text \<open>
  Strings are lists of characters. The characters of the model are the code units
  0..255, so of the white space and line terminators of ECMAScript the model has TAB, LF,
  VT, FF, CR, SP and NBSP.
\<close>

definition isWhiteSpace :: "char \<Rightarrow> bool" where
  "isWhiteSpace c \<longleftrightarrow>
     c = CHR 0x09 \<or> c = CHR 0x0A \<or> c = CHR 0x0B \<or> c = CHR 0x0C \<or> c = CHR 0x0D \<or>
     c = CHR 0x20 \<or> c = CHR 0xA0"

definition isDigit :: "char \<Rightarrow> bool" where
  "isDigit c \<longleftrightarrow> 48 \<le> (of_char c :: nat) \<and> (of_char c :: nat) \<le> 57"

definition digitValue :: "char \<Rightarrow> int" where
  "digitValue c = int (of_char c) - 48"

definition mathInt :: "string \<Rightarrow> int" where
  "mathInt Z = foldl (\<lambda>a c. 10 * a + digitValue c) 0 Z"

text \<open>
  \<open>parseInt(inputString, 10)\<close>: leading white space is skipped, one sign is read, then
  the longest run of decimal digits; no digit gives NaN, which is \<open>None\<close> here. The
  JavaScript result is a double; the model keeps the integer the digits denote. The
  code only compares the result with 2, and rounding a digit string to a double never
  moves it across 2.
\<close>

definition parseInt :: "string \<Rightarrow> int option" where
  "parseInt inputString =
     (let S = dropWhile isWhiteSpace inputString;
          sign = (if S \<noteq> [] \<and> hd S = CHR ''-'' then - 1 else 1);
          S' = (if S \<noteq> [] \<and> (hd S = CHR ''+'' \<or> hd S = CHR ''-'') then tl S else S);
          Z = takeWhile isDigit S'
      in if Z = [] then None else Some (sign * mathInt Z))"

text \<open>\<open>a >= b\<close> on numbers, where a may be NaN: every comparison with NaN is false.\<close>

fun js_ge :: "int option \<Rightarrow> int \<Rightarrow> bool" where
  "js_ge None b = False"
| "js_ge (Some a) b = (b \<le> a)"

text \<open>\<open>s.split(sep)\<close> for a one-character separator: never the empty list.\<close>

fun split :: "char \<Rightarrow> string \<Rightarrow> string list" where
  "split sep [] = [[]]"
| "split sep (c # cs) =
     (if c = sep then [] # split sep cs
      else (case split sep cs of [] \<Rightarrow> [[c]] | p # ps \<Rightarrow> (c # p) # ps))"

text \<open>\<open>s.trim()\<close>.\<close>

definition trim :: "string \<Rightarrow> string" where
  "trim s = rev (dropWhile isWhiteSpace (rev (dropWhile isWhiteSpace s)))"

text \<open>
  \<open>s.replace(pat, rep)\<close> for a string pattern: the first occurrence of the pattern is
  replaced, later ones stay.
\<close>

fun replace :: "string \<Rightarrow> string \<Rightarrow> string \<Rightarrow> string" where
  "replace pat rep [] = (if pat = [] then rep else [])"
| "replace pat rep (c # cs) =
     (if prefix pat (c # cs) then rep @ drop (length pat) (c # cs)
      else c # replace pat rep cs)"

section \<open>depmanager.ts: the version classifier\<close>

datatype pm_type = Npm | Yarn1 | Yarn2Plus

text \<open>\<open>YarnVersionType = 'yarn1' | 'yarn2+' | null\<close>; null is \<open>None\<close>.\<close>

type_synonym YarnVersionType = "pm_type option"

text \<open>
  The argument is \<open>string | null\<close>; null and undefined are \<open>None\<close>. \<open>!version\<close>
  holds for null, undefined and the empty string.
\<close>

definition getYarnVersionType :: "string option \<Rightarrow> YarnVersionType" where
  "getYarnVersionType version =
     (case version of
        None \<Rightarrow> None
      | Some v \<Rightarrow>
          if v = [] then None
          else (let majorVersion = parseInt (hd (split (CHR ''.'') v))
                in if js_ge majorVersion 2 then Some Yarn2Plus else Some Yarn1))"

text \<open>The substring before the first dot, in the spec's words.\<close>

definition beforeFirstDot :: "string \<Rightarrow> string" where
  "beforeFirstDot v = takeWhile (\<lambda>c. c \<noteq> CHR ''.'') v"

section \<open>Data model (types.ts)\<close>

datatype pm_manager = ManagerNpm | ManagerYarn

text \<open>
  \<open>PackageManagerInfo\<close>. The field \<open>type\<close> is declared \<open>'npm' | 'yarn1' | 'yarn2+'\<close>,
  but \<open>detectPackageManager\<close> stores \<open>yarnType!\<close>, which is null at run time when
  the version is unknown: the field is an option.
\<close>

record PackageManagerInfo =
  manager :: pm_manager
  version :: "string option"
  type :: "pm_type option"
  displayName :: string

record WorkspaceInfo =
  hasWorkspaces :: bool
  packages :: "string list"

text \<open>
  \<open>PackageJson.workspaces\<close> is \<open>string[] | {packages: string[]; nohoist?: string[]}\<close>.
  The code tests \<open>workspaces.packages\<close> before it uses it, so the record variant
  keeps \<open>packages\<close> optional. The other fields of the manifest are not read by the
  functions below.
\<close>

datatype workspaces_field =
    WorkspacesArray "string list"
  | WorkspacesRecord (ws_packages: "string list option") (ws_nohoist: "string list option")

record PackageJson =
  workspaces :: "workspaces_field option"

datatype error = ExecError | SyntaxError | FsError | TypeError

section \<open>JSON values: the output of npm audit\<close>

text \<open>
  \<open>runNpmAudit\<close> casts what \<open>JSON.parse\<close> returns to \<open>NpmAuditResult\<close> without a
  check, and \<open>displayNpmAuditResults\<close> throws on a value of another shape, so the
  result is a JSON value. \<open>undefined\<close> is \<open>None\<close> of \<open>json option\<close>. An object is
  the list of its properties in the order of enumeration, with distinct keys. A number
  is the rational its double denotes.
\<close>

datatype json =
    JNull
  | JBool bool
  | JNum rat
  | JStr string
  | JArr "json list"
  | JObj "(string \<times> json) list"

type_synonym NpmAuditResult = json

fun truthy :: "json option \<Rightarrow> bool" where
  "truthy None = False"
| "truthy (Some JNull) = False"
| "truthy (Some (JBool b)) = b"
| "truthy (Some (JNum n)) = (n \<noteq> 0)"
| "truthy (Some (JStr s)) = (s \<noteq> [])"
| "truthy (Some (JArr xs)) = True"
| "truthy (Some (JObj kvs)) = True"

text \<open>
  \<open>v.key\<close>, for the property names the code reads, none of which is inherited: a
  TypeError on undefined and on null, the property of an object, undefined on any
  other value.
\<close>

fun js_get :: "json option \<Rightarrow> string \<Rightarrow> error + json option" where
  "js_get None key = Inl TypeError"
| "js_get (Some JNull) key = Inl TypeError"
| "js_get (Some (JObj kvs)) key = Inr (map_of kvs key)"
| "js_get (Some v) key = Inr None"

text \<open>A natural number in decimal, for the keys of an array.\<close>

fun show_nat :: "nat \<Rightarrow> string" where
  "show_nat n =
     (if n < 10 then [char_of (48 + n)]
      else show_nat (n div 10) @ [char_of (48 + n mod 10)])"

text \<open>
  \<open>Object.entries(v)\<close>: a TypeError on undefined and on null; the properties of an
  object, the elements of an array and the characters of a string under their indices;
  nothing for a number or a boolean. \<open>Object.keys(v)\<close> has the same length.
\<close>

fun js_entries :: "json option \<Rightarrow> error + (string \<times> json) list" where
  "js_entries None = Inl TypeError"
| "js_entries (Some JNull) = Inl TypeError"
| "js_entries (Some (JObj kvs)) = Inr kvs"
| "js_entries (Some (JArr xs)) = Inr (zip (map show_nat [0..<length xs]) xs)"
| "js_entries (Some (JStr s)) =
     Inr (zip (map show_nat [0..<length s]) (map (\<lambda>c. JStr [c]) s))"
| "js_entries (Some v) = Inr []"

definition js_keys_empty :: "json option \<Rightarrow> bool" where
  "js_keys_empty v = (case js_entries v of Inl e \<Rightarrow> False | Inr entries \<Rightarrow> entries = [])"

section \<open>Effects: the trace of a run\<close>

text \<open>
  What a run does to the outside is recorded as a list of events, oldest first: the
  external commands it starts (with the working directory given to them), the
  messages it prints, and one \<open>Call\<close> event each time
  \<open>runSecurityAuditForDirectory\<close> is entered, which is how the calls of the
  per-directory audit are counted. Of the console output the events keep what tells the
  paths of the code apart, not the wording: \<open>displayYarnAuditResults\<close>, which works
  on two strings and cannot throw, is one event; \<open>displayNpmAuditResults\<close> is the
  events of the lines it prints before it returns or throws.
\<close>

datatype diag =
    CreatingPackageLock
  | CouldNotCreatePackageLock
  | DetectedWorkspaceProject
  | CheckingRootProject
  | CheckingWorkspace string
  | YarnNotFoundFallingBack
  | YarnAuditFailedFallingBack
  | AuditCouldNotBeCompleted
  | AuditNotAvailableForWorkspace
  | NoVulnerabilitiesFound
  | VulnerabilitiesFound
  | PackageLine string
  | VulnerabilityDetails json
  | VulnerabilitySummary "json option"
  | YarnAuditReport string string

datatype event =
    Call string
  | Exec string "string option"
  | Log diag

text \<open>
  The environment of a run: the working directory, Node's \<open>path\<close> and \<open>fs\<close>
  functions on the file system as it is when the run starts, \<open>JSON.parse\<close> on a
  manifest (at the declared type \<open>PackageJson\<close>) and on the output of npm audit, and
  the outcome of external commands. \<open>None\<close> is a thrown exception (or a rejected
  promise). The outcome of a command may depend on everything that happened before it,
  so \<open>execPromise\<close> reads the trace.

  The commands of a run change the file system: \<open>npm i --package-lock-only\<close> writes
  \<open>package-lock.json\<close>. \<open>written E tr p\<close> says that the commands of the history
  \<open>tr\<close> have created the file \<open>p\<close>. The commands are taken to create regular files
  beside the manifests and to leave the manifests and the directories as they are, so
  the manifest reader and the walk read the file system of the start, and the test for
  the lock file in \<open>runNpmAudit\<close>, the one read that comes after a command which
  writes what it reads, is \<open>existsSync_at\<close>.
\<close>

record env =
  cwd :: string
  path_join :: "string list \<Rightarrow> string"
  path_relative :: "string \<Rightarrow> string \<Rightarrow> string"
  existsSync :: "string \<Rightarrow> bool"
  readFileSync :: "string \<Rightarrow> string option"
  readdirSync :: "string \<Rightarrow> string list option"
  statSync_isDirectory :: "string \<Rightarrow> bool option"
  JSON_parse_PackageJson :: "string \<Rightarrow> PackageJson option"
  JSON_parse_NpmAuditResult :: "string \<Rightarrow> NpmAuditResult option"
  execPromise :: "event list \<Rightarrow> string \<Rightarrow> string option \<Rightarrow> (string \<times> string) option"
  written :: "event list \<Rightarrow> string \<Rightarrow> bool"

definition existsSync_at :: "env \<Rightarrow> event list \<Rightarrow> string \<Rightarrow> bool" where
  "existsSync_at E tr p \<longleftrightarrow> existsSync E p \<or> written E tr p"

type_synonym 'a io = "event list \<Rightarrow> (error + 'a) \<times> event list"

definition io_return :: "'a \<Rightarrow> 'a io" where
  "io_return x tr = (Inr x, tr)"

definition io_throw :: "error \<Rightarrow> 'a io" where
  "io_throw e tr = (Inl e, tr)"

definition io_bind :: "'a io \<Rightarrow> ('a \<Rightarrow> 'b io) \<Rightarrow> 'b io" where
  "io_bind m f tr = (case m tr of (Inl e, tr') \<Rightarrow> (Inl e, tr') | (Inr x, tr') \<Rightarrow> f x tr')"

definition io_catch :: "'a io \<Rightarrow> (error \<Rightarrow> 'a io) \<Rightarrow> 'a io" where
  "io_catch m h tr = (case m tr of (Inl e, tr') \<Rightarrow> h e tr' | (Inr x, tr') \<Rightarrow> (Inr x, tr'))"

definition log :: "diag \<Rightarrow> unit io" where
  "log d tr = (Inr (), tr @ [Log d])"

definition exec :: "env \<Rightarrow> string \<Rightarrow> string option \<Rightarrow> (string \<times> string) io" where
  "exec E command dir tr =
     (case execPromise E tr command dir of
        None \<Rightarrow> (Inl ExecError, tr @ [Exec command dir])
      | Some out \<Rightarrow> (Inr out, tr @ [Exec command dir]))"

section \<open>depmanager.ts\<close>

definition getYarnVersion :: "env \<Rightarrow> string option io" where
  "getYarnVersion E =
     io_catch
       (io_bind (exec E ''yarn --version'' None)
          (\<lambda>(stdout, stderr). io_return (Some (trim stdout))))
       (\<lambda>error. io_return None)"

text \<open>
  The try block of \<open>getWorkspaceInfo\<close>, then the function with its catch clause, which
  turns every exception into the default.
\<close>

definition getWorkspaceInfo_try :: "env \<Rightarrow> string \<Rightarrow> error + WorkspaceInfo" where
  "getWorkspaceInfo_try E projectDir =
     (let packageJsonPath = path_join E [projectDir, ''package.json'']
      in if \<not> existsSync E packageJsonPath
         then Inr \<lparr>hasWorkspaces = False, packages = []\<rparr>
         else (case readFileSync E packageJsonPath of
                 None \<Rightarrow> Inl FsError
               | Some packageJsonContent \<Rightarrow>
                   (case JSON_parse_PackageJson E packageJsonContent of
                      None \<Rightarrow> Inl SyntaxError
                    | Some packageJson \<Rightarrow>
                        (case workspaces packageJson of
                           Some (WorkspacesArray ps) \<Rightarrow>
                             Inr \<lparr>hasWorkspaces = True, packages = ps\<rparr>
                         | Some (WorkspacesRecord (Some ps) nohoist) \<Rightarrow>
                             Inr \<lparr>hasWorkspaces = True, packages = ps\<rparr>
                         | _ \<Rightarrow> Inr \<lparr>hasWorkspaces = False, packages = []\<rparr>))))"

definition getWorkspaceInfo :: "env \<Rightarrow> string \<Rightarrow> WorkspaceInfo" where
  "getWorkspaceInfo E projectDir =
     (case getWorkspaceInfo_try E projectDir of
        Inl error \<Rightarrow> \<lparr>hasWorkspaces = False, packages = []\<rparr>
      | Inr info \<Rightarrow> info)"

text \<open>A template literal prints null as the four letters.\<close>

definition template :: "string option \<Rightarrow> string" where
  "template v = (case v of None \<Rightarrow> ''null'' | Some s \<Rightarrow> s)"

definition detectPackageManager :: "env \<Rightarrow> string \<Rightarrow> PackageManagerInfo io" where
  "detectPackageManager E projectDir =
     (let hasYarnLock = existsSync E (path_join E [projectDir, ''yarn.lock'']);
          hasPackageLock = existsSync E (path_join E [projectDir, ''package-lock.json''])
      in if hasYarnLock then
           io_bind (getYarnVersion E) (\<lambda>yarnVersion.
             let yarnType = getYarnVersionType yarnVersion
             in io_return
                  \<lparr>manager = ManagerYarn, version = yarnVersion, type = yarnType,
                   displayName =
                     (if yarnType = Some Yarn2Plus
                      then ''yarn '' @ template yarnVersion @ '' (2+)''
                      else ''yarn '' @ template yarnVersion @ '' (1.x)'')\<rparr>)
         else if hasPackageLock then
           io_return \<lparr>manager = ManagerNpm, version = None, type = Some Npm,
                      displayName = ''npm''\<rparr>
         else
           io_return \<lparr>manager = ManagerNpm, version = None, type = Some Npm,
                      displayName = ''npm (default)''\<rparr>)"

text \<open>\<open>runNpmAudit\<close>; its outer catch clause throws the error again.\<close>

definition runNpmAudit :: "env \<Rightarrow> string \<Rightarrow> NpmAuditResult io" where
  "runNpmAudit E directory =
     io_bind
       (\<lambda>tr.
          if \<not> existsSync_at E tr (path_join E [directory, ''package-lock.json'']) then
            io_bind (log CreatingPackageLock) (\<lambda>_.
              io_catch
                (io_bind
                   (exec E ''npm i --package-lock-only --ignore-scripts'' (Some directory))
                   (\<lambda>_. io_return ()))
                (\<lambda>installError. log CouldNotCreatePackageLock)) tr
          else io_return () tr)
       (\<lambda>_. io_bind (exec E ''npm audit --json'' (Some directory))
          (\<lambda>(stdout, stderr).
             case JSON_parse_NpmAuditResult E stdout of
               None \<Rightarrow> io_throw SyntaxError
             | Some result \<Rightarrow> io_return result))"

definition runYarnAudit :: "env \<Rightarrow> string \<Rightarrow> YarnVersionType \<Rightarrow> (string \<times> string) io" where
  "runYarnAudit E directory yarnType =
     (let auditCommand = (if yarnType = Some Yarn2Plus then ''yarn npm audit'' else ''yarn audit'')
      in exec E auditCommand (Some directory))"

section \<open>cli.ts: the audit dispatcher\<close>

text \<open>
  The loop of \<open>displayNpmAuditResults\<close> over the entries of \<open>vulnerabilities\<close>: the
  package line is printed, then \<open>info.severity\<close> throws when \<open>info\<close> is null; the
  other reads of \<open>info\<close> cannot throw once this one has not.
\<close>

fun displayVulnerabilities :: "(string \<times> json) list \<Rightarrow> unit io" where
  "displayVulnerabilities [] tr = (Inr (), tr)"
| "displayVulnerabilities ((pkg, info) # entries) tr =
     (if info = JNull then (Inl TypeError, tr @ [Log (PackageLine pkg)])
      else displayVulnerabilities entries
             (tr @ [Log (PackageLine pkg), Log (VulnerabilityDetails info)]))"

text \<open>
  \<open>displayNpmAuditResults\<close> (cli.ts:37-66). It throws a TypeError when \<open>result\<close> is
  null, when \<open>result.vulnerabilities\<close> is undefined or null, when the value of an entry
  is null, and when \<open>result.metadata\<close> or \<open>result.metadata.vulnerabilities\<close> is
  undefined or null; the lines printed before the throw stay printed.
\<close>

definition displayNpmAuditResults :: "NpmAuditResult \<Rightarrow> unit io" where
  "displayNpmAuditResults result tr =
     (case js_get (Some result) ''vulnerabilities'' of
        Inl e \<Rightarrow> (Inl e, tr)
      | Inr vulnerabilities \<Rightarrow>
          if truthy vulnerabilities \<and> js_keys_empty vulnerabilities then
            (Inr (), tr @ [Log NoVulnerabilitiesFound])
          else
            (case js_entries vulnerabilities of
               Inl e \<Rightarrow> (Inl e, tr @ [Log VulnerabilitiesFound])
             | Inr entries \<Rightarrow>
                 (case displayVulnerabilities entries (tr @ [Log VulnerabilitiesFound]) of
                    (Inl e, tr') \<Rightarrow> (Inl e, tr')
                  | (Inr u, tr') \<Rightarrow>
                      (case js_get (Some result) ''metadata'' of
                         Inl e \<Rightarrow> (Inl e, tr')
                       | Inr metadata \<Rightarrow>
                           (case js_get metadata ''vulnerabilities'' of
                              Inl e \<Rightarrow> (Inl e, tr')
                            | Inr counts \<Rightarrow>
                                (case js_get counts ''total'' of
                                   Inl e \<Rightarrow> (Inl e, tr')
                                 | Inr totalCount \<Rightarrow>
                                     (Inr (), tr' @ [Log (VulnerabilitySummary counts)])))))))"

definition displayYarnAuditResults :: "string \<Rightarrow> string \<Rightarrow> unit io" where
  "displayYarnAuditResults stdout stderr = log (YarnAuditReport stdout stderr)"

text \<open>\<open>!v\<close> for \<open>v: string | null\<close>.\<close>

definition js_not :: "string option \<Rightarrow> bool" where
  "js_not v = (case v of None \<Rightarrow> True | Some s \<Rightarrow> s = [])"

definition runSecurityAuditForDirectory :: "env \<Rightarrow> string \<Rightarrow> PackageManagerInfo \<Rightarrow> unit io" where
  "runSecurityAuditForDirectory E directory pmInfo =
     io_bind (\<lambda>tr. (Inr (), tr @ [Call directory])) (\<lambda>_.
       if manager pmInfo = ManagerYarn then
         io_catch
           (if js_not (version pmInfo) then
              io_bind (log YarnNotFoundFallingBack) (\<lambda>_.
                io_bind (runNpmAudit E directory) displayNpmAuditResults)
            else
              io_bind
                (runYarnAudit E directory
                   (if type pmInfo = Some Npm then None else type pmInfo))
                (\<lambda>(stdout, stderr). displayYarnAuditResults stdout stderr))
           (\<lambda>error.
              if directory \<noteq> cwd E \<or> \<not> hasWorkspaces (getWorkspaceInfo E (cwd E)) then
                io_bind (log YarnAuditFailedFallingBack) (\<lambda>_.
                  io_catch
                    (io_bind (runNpmAudit E directory) displayNpmAuditResults)
                    (\<lambda>npmError. log AuditCouldNotBeCompleted))
              else log AuditNotAvailableForWorkspace)
       else
         io_catch
           (io_bind (runNpmAudit E directory) displayNpmAuditResults)
           (\<lambda>error. log AuditCouldNotBeCompleted))"

text \<open>
  The base path of a workspace pattern, \<open>pattern.replace('/*', '')\<close>: the first
  occurrence of \<open>/*\<close> is removed.
\<close>

definition basePath_of :: "string \<Rightarrow> string" where
  "basePath_of pattern = replace ''/*'' [] pattern"

text \<open>The inner loop of \<open>runSecurityAudit\<close>, over the entries of one base directory.\<close>

fun auditEntries :: "env \<Rightarrow> PackageManagerInfo \<Rightarrow> string \<Rightarrow> string list \<Rightarrow> unit io" where
  "auditEntries E pmInfo basePath [] tr = (Inr (), tr)"
| "auditEntries E pmInfo basePath (entry # entries) tr =
     (let packagePath = path_join E [cwd E, basePath, entry]
      in case statSync_isDirectory E packagePath of
           None \<Rightarrow> (Inl FsError, tr)
         | Some isDir \<Rightarrow>
             if isDir \<and> existsSync E (path_join E [packagePath, ''package.json'']) then
               (case io_bind (log (CheckingWorkspace (path_relative E (cwd E) packagePath)))
                       (\<lambda>_. runSecurityAuditForDirectory E packagePath pmInfo) tr of
                  (Inl e, tr') \<Rightarrow> (Inl e, tr')
                | (Inr _, tr') \<Rightarrow> auditEntries E pmInfo basePath entries tr')
             else auditEntries E pmInfo basePath entries tr)"

text \<open>The outer loop, over the workspace patterns.\<close>

fun auditPatterns :: "env \<Rightarrow> PackageManagerInfo \<Rightarrow> string list \<Rightarrow> unit io" where
  "auditPatterns E pmInfo [] tr = (Inr (), tr)"
| "auditPatterns E pmInfo (pattern # patterns) tr =
     (let basePath = basePath_of pattern
      in if existsSync E (path_join E [cwd E, basePath]) then
           (case readdirSync E (path_join E [cwd E, basePath]) of
              None \<Rightarrow> (Inl FsError, tr)
            | Some entries \<Rightarrow>
                (case auditEntries E pmInfo basePath entries tr of
                   (Inl e, tr') \<Rightarrow> (Inl e, tr')
                 | (Inr _, tr') \<Rightarrow> auditPatterns E pmInfo patterns tr'))
         else auditPatterns E pmInfo patterns tr)"

definition runSecurityAudit :: "env \<Rightarrow> PackageManagerInfo \<Rightarrow> unit io" where
  "runSecurityAudit E pmInfo =
     (let workspaceInfo = getWorkspaceInfo E (cwd E)
      in if hasWorkspaces workspaceInfo then
           io_bind (log DetectedWorkspaceProject) (\<lambda>_.
             io_bind (log CheckingRootProject) (\<lambda>_.
               io_bind (runSecurityAuditForDirectory E (cwd E) pmInfo) (\<lambda>_.
                 auditPatterns E pmInfo (packages workspaceInfo))))
         else runSecurityAuditForDirectory E (cwd E) pmInfo)"

section \<open>Reading a trace\<close>

text \<open>The directories of the \<open>Call\<close> events, and the commands of the \<open>Exec\<close> events.\<close>

fun calls :: "event list \<Rightarrow> string list" where
  "calls [] = []"
| "calls (Call d # es) = d # calls es"
| "calls (e # es) = calls es"

fun execs :: "event list \<Rightarrow> (string \<times> string option) list" where
  "execs [] = []"
| "execs (Exec c d # es) = (c, d) # execs es"
| "execs (e # es) = execs es"

text \<open>The events a step adds to the trace it started from.\<close>

definition since :: "event list \<Rightarrow> event list \<Rightarrow> event list" where
  "since tr tr' = drop (length tr) tr'"

text \<open>
  The event that ends a per-directory audit: the last line of a display that returned,
  or a diagnostic.
\<close>

fun is_report :: "event \<Rightarrow> bool" where
  "is_report (Log NoVulnerabilitiesFound) = True"
| "is_report (Log (VulnerabilitySummary counts)) = True"
| "is_report (Log (YarnAuditReport out err)) = True"
| "is_report e = False"

fun is_failure_diag :: "event \<Rightarrow> bool" where
  "is_failure_diag (Log AuditCouldNotBeCompleted) = True"
| "is_failure_diag (Log AuditNotAvailableForWorkspace) = True"
| "is_failure_diag e = False"

section \<open>The targets of a walk, computed from the file system alone\<close>

text \<open>
  The spec's words for the same step: a trailing \<open>/*\<close> is stripped, any other pattern
  is taken as it is.
\<close>

definition strip_trailing_slash_star :: "string \<Rightarrow> string" where
  "strip_trailing_slash_star pattern =
     (if suffix ''/*'' pattern then take (length pattern - 2) pattern else pattern)"

text \<open>
  The members of one pattern: the entries of the base directory, in listing order, that
  are directories with a manifest of their own.
\<close>

definition is_member :: "env \<Rightarrow> string \<Rightarrow> string \<Rightarrow> bool" where
  "is_member E basePath entry \<longleftrightarrow>
     statSync_isDirectory E (path_join E [cwd E, basePath, entry]) = Some True \<and>
     existsSync E (path_join E [path_join E [cwd E, basePath, entry], ''package.json''])"

definition workspace_members :: "env \<Rightarrow> string \<Rightarrow> string list" where
  "workspace_members E pattern =
     (if existsSync E (path_join E [cwd E, basePath_of pattern]) then
        (case readdirSync E (path_join E [cwd E, basePath_of pattern]) of
           None \<Rightarrow> []
         | Some entries \<Rightarrow>
             map (\<lambda>entry. path_join E [cwd E, basePath_of pattern, entry])
               (filter (is_member E (basePath_of pattern)) entries))
      else [])"


text \<open>
  The directories the two loops reach, with a flag that is false when a file system
  exception stopped them.
\<close>

fun visitedEntries :: "env \<Rightarrow> string \<Rightarrow> string list \<Rightarrow> string list \<times> bool" where
  "visitedEntries E basePath [] = ([], True)"
| "visitedEntries E basePath (entry # entries) =
     (case statSync_isDirectory E (path_join E [cwd E, basePath, entry]) of
        None \<Rightarrow> ([], False)
      | Some isDir \<Rightarrow>
          (let (ds, ok) = visitedEntries E basePath entries
           in if is_member E basePath entry
              then (path_join E [cwd E, basePath, entry] # ds, ok) else (ds, ok)))"

fun visitedPatterns :: "env \<Rightarrow> string list \<Rightarrow> string list \<times> bool" where
  "visitedPatterns E [] = ([], True)"
| "visitedPatterns E (pattern # patterns) =
     (if existsSync E (path_join E [cwd E, basePath_of pattern]) then
        (case readdirSync E (path_join E [cwd E, basePath_of pattern]) of
           None \<Rightarrow> ([], False)
         | Some entries \<Rightarrow>
             (let (ds, ok) = visitedEntries E (basePath_of pattern) entries
              in if ok then (let (ds', ok') = visitedPatterns E patterns in (ds @ ds', ok'))
                 else (ds, False)))
      else visitedPatterns E patterns)"

text \<open>Whether a string occurs in another.\<close>

fun contains :: "string \<Rightarrow> string \<Rightarrow> bool" where
  "contains pat [] = (pat = [])"
| "contains pat (c # cs) = (prefix pat (c # cs) \<or> contains pat cs)"

section \<open>Example projects\<close>

text \<open>
  \<open>path.join\<close> and \<open>path.relative\<close> on the paths of the examples, which need no
  normalisation: the segments are joined by one slash, and the relative path of a path
  below \<open>from\<close> is what follows \<open>from\<close> and the slash.
\<close>

fun plain_join :: "string list \<Rightarrow> string" where
  "plain_join [] = ''.''"
| "plain_join [p] = p"
| "plain_join (p # ps) = p @ ''/'' @ plain_join ps"

definition plain_relative :: "string \<Rightarrow> string \<Rightarrow> string" where
  "plain_relative from to = drop (length from + 1) to"

text \<open>
  A yarn monorepo in \<open>/proj\<close> with the workspace pattern \<open>packages/*\<close>. Under
  \<open>packages\<close> are a file and the packages \<open>a\<close> and \<open>b\<close>; the manifest of \<open>a\<close>
  does not parse. \<open>yarn --version\<close> answers 1.22.19 and every other command fails;
  no file is written.
\<close>

definition monorepo :: env where
  "monorepo =
     \<lparr>cwd = ''/proj'',
      path_join = plain_join,
      path_relative = plain_relative,
      existsSync = (\<lambda>p. p \<in> set [''/proj/package.json'', ''/proj/yarn.lock'',
        ''/proj/packages'', ''/proj/packages/README.md'',
        ''/proj/packages/a'', ''/proj/packages/a/package.json'',
        ''/proj/packages/b'', ''/proj/packages/b/package.json'']),
      readFileSync = map_of [(''/proj/package.json'', ''root manifest''),
        (''/proj/packages/a/package.json'', ''invalid json''),
        (''/proj/packages/b/package.json'', ''member manifest'')],
      readdirSync = map_of [(''/proj/packages'', [''README.md'', ''a'', ''b''])],
      statSync_isDirectory = map_of [(''/proj/packages/README.md'', False),
        (''/proj/packages/a'', True), (''/proj/packages/b'', True)],
      JSON_parse_PackageJson = map_of
        [(''root manifest'', \<lparr>workspaces = Some (WorkspacesArray [''packages/*''])\<rparr>),
         (''member manifest'', \<lparr>workspaces = None\<rparr>)],
      JSON_parse_NpmAuditResult = (\<lambda>stdout. None),
      execPromise = (\<lambda>tr command dir.
        if command = ''yarn --version'' then Some (''1.22.19'' @ [CHR 0x0A], []) else None),
      written = (\<lambda>tr p. False)\<rparr>"

text \<open>The same project with the workspaces declared as a record with \<open>nohoist\<close>.\<close>

definition nohoist_repo :: env where
  "nohoist_repo =
     monorepo\<lparr>JSON_parse_PackageJson := map_of
       [(''root manifest'',
         \<lparr>workspaces = Some (WorkspacesRecord (Some [''packages/*'', ''tools/*''])
            (Some [''**/react-native'', ''**/react-native/**'']))\<rparr>)]\<rparr>"


text \<open>The package manager records used in the examples.\<close>

definition yarn1_info :: PackageManagerInfo where
  "yarn1_info = \<lparr>manager = ManagerYarn, version = Some ''1.22.19'', type = Some Yarn1,
     displayName = ''yarn 1.22.19 (1.x)''\<rparr>"

definition yarn_unknown_info :: PackageManagerInfo where
  "yarn_unknown_info = \<lparr>manager = ManagerYarn, version = None, type = None,
     displayName = ''yarn null (1.x)''\<rparr>"

section \<open>Vocabulary of the results\<close>

text \<open>
  The commands of one \<open>runNpmAudit\<close> in a directory, started after the history
  \<open>tr\<close>: the lock file is created first when it is missing then, and the audit runs.
\<close>

definition npm_execs :: "env \<Rightarrow> string \<Rightarrow> event list \<Rightarrow> (string \<times> string option) list" where
  "npm_execs E directory tr =
     (if existsSync_at E tr (path_join E [directory, ''package-lock.json'']) then []
      else [(''npm i --package-lock-only --ignore-scripts'', Some directory)]) @
     [(''npm audit --json'', Some directory)]"

text \<open>The command \<open>runYarnAudit\<close> runs for a package manager record.\<close>

definition yarn_audit_command :: "PackageManagerInfo \<Rightarrow> string" where
  "yarn_audit_command pmInfo =
     (if type pmInfo = Some Yarn2Plus then ''yarn npm audit'' else ''yarn audit'')"

text \<open>Whether a directory is the root of a project that declares workspaces.\<close>

definition is_workspace_root :: "env \<Rightarrow> string \<Rightarrow> bool" where
  "is_workspace_root E directory \<longleftrightarrow>
     directory = cwd E \<and> hasWorkspaces (getWorkspaceInfo E (cwd E))"

text \<open>
  The blocks of \<open>runSecurityAuditForDirectory\<close>, named for the results: the npm audit
  and its display, which is the body of a try three times; that body with the catch
  clause it has twice; the body of the try of the yarn branch; and the catch clause of
  the yarn branch.
\<close>

definition npmAttempt :: "env \<Rightarrow> string \<Rightarrow> unit io" where
  "npmAttempt E directory = io_bind (runNpmAudit E directory) displayNpmAuditResults"

definition npmAuditBlock :: "env \<Rightarrow> string \<Rightarrow> unit io" where
  "npmAuditBlock E directory =
     io_catch (npmAttempt E directory) (\<lambda>error. log AuditCouldNotBeCompleted)"

definition yarnAttempt :: "env \<Rightarrow> string \<Rightarrow> PackageManagerInfo \<Rightarrow> unit io" where
  "yarnAttempt E directory pmInfo =
     (if js_not (version pmInfo) then
        io_bind (log YarnNotFoundFallingBack) (\<lambda>_. npmAttempt E directory)
      else
        io_bind
          (runYarnAudit E directory (if type pmInfo = Some Npm then None else type pmInfo))
          (\<lambda>(stdout, stderr). displayYarnAuditResults stdout stderr))"

definition yarnCatchBlock :: "env \<Rightarrow> string \<Rightarrow> unit io" where
  "yarnCatchBlock E directory =
     (if directory \<noteq> cwd E \<or> \<not> hasWorkspaces (getWorkspaceInfo E (cwd E)) then
        io_bind (log YarnAuditFailedFallingBack) (\<lambda>_. npmAuditBlock E directory)
      else log AuditNotAvailableForWorkspace)"

text \<open>The monorepo with a yarn that answers 3.1.0, and with no command that works.\<close>

definition berry_repo :: env where
  "berry_repo =
     monorepo\<lparr>execPromise := (\<lambda>tr command dir.
       if command = ''yarn --version'' then Some (''3.1.0'' @ [CHR 0x0A], []) else None)\<rparr>"

definition offline_repo :: env where
  "offline_repo = monorepo\<lparr>execPromise := (\<lambda>tr command dir. None)\<rparr>"

text \<open>
  The monorepo where the version of yarn is unknown to the caller, \<open>npm i
  --package-lock-only\<close> works and writes the lock file of its directory, and
  \<open>npm audit\<close> fails.
\<close>

definition lock_written :: "event list \<Rightarrow> string \<Rightarrow> bool" where
  "lock_written tr p \<longleftrightarrow>
     list_ex (\<lambda>e. case e of
        Exec command (Some dir) \<Rightarrow>
          command = ''npm i --package-lock-only --ignore-scripts'' \<and>
          p = dir @ ''/package-lock.json''
      | _ \<Rightarrow> False) tr"

definition install_only_repo :: env where
  "install_only_repo =
     monorepo\<lparr>execPromise := (\<lambda>tr command dir.
         if command = ''npm i --package-lock-only --ignore-scripts'' then Some ([], [])
         else None),
       written := lock_written\<rparr>"

text \<open>
  The monorepo where every command works and writes as above, \<open>yarn audit\<close> finds
  nothing, and \<open>npm audit\<close> prints an object without \<open>vulnerabilities\<close>.
\<close>

definition empty_output_repo :: env where
  "empty_output_repo =
     monorepo\<lparr>execPromise := (\<lambda>tr command dir.
         if command = ''npm audit --json'' then Some (''{}'', [])
         else Some (''No known vulnerabilities found'', [])),
       JSON_parse_NpmAuditResult := map_of [(''{}'', JObj [])],
       written := lock_written\<rparr>"


text \<open>The monorepo with a yarn whose \<open>--version\<close> prints the four letters null.\<close>

definition null_version_repo :: env where
  "null_version_repo =
     monorepo\<lparr>execPromise := (\<lambda>tr command dir.
       if command = ''yarn --version'' then Some (''null'', []) else None)\<rparr>"


section \<open>Lemmas on traces\<close>

lemma calls_append: "calls (xs @ ys) = calls xs @ calls ys"
  by (induction xs rule: calls.induct) simp_all

lemma execs_append: "execs (xs @ ys) = execs xs @ execs ys"
  by (induction xs rule: execs.induct) simp_all

lemma since_append: "since tr (tr @ xs) = xs"
  by (simp add: since_def)

lemmas io_defs = io_bind_def io_catch_def io_return_def io_throw_def log_def exec_def

lemma runNpmAudit_trace:
  "\<exists>new. snd (runNpmAudit E d tr) = tr @ new \<and> calls new = [] \<and> execs new = npm_execs E d tr"
  by (simp add: runNpmAudit_def io_defs npm_execs_def split: option.splits sum.splits prod.splits)

lemma displayVulnerabilities_trace:
  "\<exists>new. snd (displayVulnerabilities entries tr) = tr @ new \<and> calls new = [] \<and> execs new = []"
proof (induction entries arbitrary: tr)
  case Nil
  show ?case by simp
next
  case (Cons entry entries)
  obtain pkg info where e: "entry = (pkg, info)" by (cases entry)
  show ?case
  proof (cases "info = JNull")
    case True
    with e show ?thesis by simp
  next
    case False
    let ?tr1 = "tr @ [Log (PackageLine pkg), Log (VulnerabilityDetails info)]"
    obtain new where "snd (displayVulnerabilities entries ?tr1) = ?tr1 @ new"
      "calls new = []" "execs new = []"
      using Cons.IH by blast
    then have "snd (displayVulnerabilities (entry # entries) tr) =
        tr @ (Log (PackageLine pkg) # Log (VulnerabilityDetails info) # new) \<and>
      calls (Log (PackageLine pkg) # Log (VulnerabilityDetails info) # new) = [] \<and>
      execs (Log (PackageLine pkg) # Log (VulnerabilityDetails info) # new) = []"
      using e False by simp
    then show ?thesis by blast
  qed
qed

lemma displayNpmAuditResults_trace:
  "\<exists>new. snd (displayNpmAuditResults result tr) = tr @ new \<and> calls new = [] \<and>
     execs new = [] \<and>
     (fst (displayNpmAuditResults result tr) = Inr () \<longrightarrow> new \<noteq> [] \<and> is_report (last new))"
proof (cases "js_get (Some result) ''vulnerabilities''")
  case (Inl e)
  then show ?thesis by (simp add: displayNpmAuditResults_def)
next
  case v: (Inr vulnerabilities)
  show ?thesis
  proof (cases "truthy vulnerabilities \<and> js_keys_empty vulnerabilities")
    case True
    with v have "displayNpmAuditResults result tr = (Inr (), tr @ [Log NoVulnerabilitiesFound])"
      by (simp add: displayNpmAuditResults_def)
    then show ?thesis by simp
  next
    case nk: False
    show ?thesis
    proof (cases "js_entries vulnerabilities")
      case (Inl e)
      with v nk have "displayNpmAuditResults result tr = (Inl e, tr @ [Log VulnerabilitiesFound])"
        by (auto simp: displayNpmAuditResults_def)
      then show ?thesis by simp
    next
      case es: (Inr entries)
      let ?tr1 = "tr @ [Log VulnerabilitiesFound]"
      obtain new1 where n: "snd (displayVulnerabilities entries ?tr1) = ?tr1 @ new1"
        "calls new1 = []" "execs new1 = []"
        using displayVulnerabilities_trace by blast
      obtain r tr' where rt: "displayVulnerabilities entries ?tr1 = (r, tr')"
        by (cases "displayVulnerabilities entries ?tr1")
      with n have tr': "tr' = tr @ (Log VulnerabilitiesFound # new1)" by simp
      have c: "calls (Log VulnerabilitiesFound # new1) = []"
        "execs (Log VulnerabilitiesFound # new1) = []"
        using n by simp_all
      have "displayNpmAuditResults result tr = (Inl TypeError, tr') \<or>
            (\<exists>counts. displayNpmAuditResults result tr =
               (Inr (), tr' @ [Log (VulnerabilitySummary counts)])) \<or>
            (\<exists>e. displayNpmAuditResults result tr = (Inl e, tr'))"
        using v nk es rt
        by (cases r; cases "js_get (Some result) ''metadata''")
           (auto simp: displayNpmAuditResults_def split: sum.splits)
      then consider (fail) e where "displayNpmAuditResults result tr = (Inl e, tr')"
        | (ok) counts where "displayNpmAuditResults result tr =
               (Inr (), tr' @ [Log (VulnerabilitySummary counts)])"
        by blast
      then show ?thesis
      proof cases
        case fail
        with tr' c show ?thesis by simp
      next
        case ok
        then have "snd (displayNpmAuditResults result tr) =
            tr @ (Log VulnerabilitiesFound # new1 @ [Log (VulnerabilitySummary counts)])"
          using tr' by simp
        moreover have "calls (Log VulnerabilitiesFound # new1 @ [Log (VulnerabilitySummary counts)]) = []"
          "execs (Log VulnerabilitiesFound # new1 @ [Log (VulnerabilitySummary counts)]) = []"
          using n by (simp_all add: calls_append execs_append)
        ultimately show ?thesis using ok by (intro exI [of _ "Log VulnerabilitiesFound # new1 @ [Log (VulnerabilitySummary counts)]"]) simp
      qed
    qed
  qed
qed

lemma npmAttempt_trace:
  "\<exists>new. snd (npmAttempt E d tr) = tr @ new \<and> calls new = [] \<and>
     execs new = npm_execs E d tr \<and>
     (fst (npmAttempt E d tr) = Inr () \<longrightarrow> new \<noteq> [] \<and> is_report (last new))"
proof -
  obtain new1 where n: "snd (runNpmAudit E d tr) = tr @ new1" "calls new1 = []"
    "execs new1 = npm_execs E d tr"
    using runNpmAudit_trace by blast
  obtain r tr1 where rt: "runNpmAudit E d tr = (r, tr1)" by (cases "runNpmAudit E d tr")
  with n have tr1: "tr1 = tr @ new1" by simp
  show ?thesis
  proof (cases r)
    case (Inl e)
    with rt tr1 n show ?thesis by (simp add: npmAttempt_def io_bind_def)
  next
    case (Inr result)
    obtain new2 where d: "snd (displayNpmAuditResults result tr1) = tr1 @ new2"
      "calls new2 = []" "execs new2 = []"
      "fst (displayNpmAuditResults result tr1) = Inr () \<longrightarrow> new2 \<noteq> [] \<and> is_report (last new2)"
      using displayNpmAuditResults_trace by blast
    have a: "npmAttempt E d tr = displayNpmAuditResults result tr1"
      using rt Inr by (simp add: npmAttempt_def io_bind_def)
    have "snd (npmAttempt E d tr) = tr @ (new1 @ new2)" using a d(1) tr1 by simp
    moreover have "calls (new1 @ new2) = []" "execs (new1 @ new2) = npm_execs E d tr"
      using n d by (simp_all add: calls_append execs_append)
    moreover have "fst (npmAttempt E d tr) = Inr () \<longrightarrow>
        new1 @ new2 \<noteq> [] \<and> is_report (last (new1 @ new2))"
      using a d(4) by simp
    ultimately show ?thesis by blast
  qed
qed

lemma npmAuditBlock_trace:
  "\<exists>new x. npmAuditBlock E d tr = (Inr (), tr @ new @ [x]) \<and> calls (new @ [x]) = [] \<and>
     execs (new @ [x]) = npm_execs E d tr \<and>
     (if isl (fst (npmAttempt E d tr)) then x = Log AuditCouldNotBeCompleted else is_report x)"
proof -
  obtain new1 where n: "snd (npmAttempt E d tr) = tr @ new1" "calls new1 = []"
    "execs new1 = npm_execs E d tr"
    "fst (npmAttempt E d tr) = Inr () \<longrightarrow> new1 \<noteq> [] \<and> is_report (last new1)"
    using npmAttempt_trace by blast
  obtain r tr1 where rt: "npmAttempt E d tr = (r, tr1)" by (cases "npmAttempt E d tr")
  with n have tr1: "tr1 = tr @ new1" by simp
  show ?thesis
  proof (cases r)
    case (Inl e)
    then have "npmAuditBlock E d tr = (Inr (), tr @ new1 @ [Log AuditCouldNotBeCompleted])"
      using rt tr1 by (simp add: npmAuditBlock_def io_catch_def log_def)
    moreover have "calls (new1 @ [Log AuditCouldNotBeCompleted]) = []"
      "execs (new1 @ [Log AuditCouldNotBeCompleted]) = npm_execs E d tr"
      using n by (simp_all add: calls_append execs_append)
    ultimately show ?thesis using rt Inl by fastforce
  next
    case (Inr u)
    with rt n(4) have ne: "new1 \<noteq> []" "is_report (last new1)" by simp_all
    then have s: "new1 = butlast new1 @ [last new1]" by simp
    have "npmAuditBlock E d tr = (Inr (), tr @ new1)"
      using rt tr1 Inr by (simp add: npmAuditBlock_def io_catch_def)
    with s have "npmAuditBlock E d tr = (Inr (), tr @ butlast new1 @ [last new1])" by simp
    moreover have "calls (butlast new1 @ [last new1]) = []"
      "execs (butlast new1 @ [last new1]) = npm_execs E d tr"
      using n s by simp_all
    ultimately show ?thesis using rt Inr ne(2) by fastforce
  qed
qed

lemma yarnCatchBlock_trace:
  "\<exists>new x. yarnCatchBlock E d tr = (Inr (), tr @ new @ [x]) \<and> calls (new @ [x]) = [] \<and>
     execs (new @ [x]) =
       (if is_workspace_root E d then []
        else npm_execs E d (tr @ [Log YarnAuditFailedFallingBack])) \<and>
     (if is_workspace_root E d then x = Log AuditNotAvailableForWorkspace
      else Log YarnAuditFailedFallingBack \<in> set new \<and>
           (if isl (fst (npmAttempt E d (tr @ [Log YarnAuditFailedFallingBack])))
            then x = Log AuditCouldNotBeCompleted else is_report x))"
proof (cases "is_workspace_root E d")
  case True
  then have "yarnCatchBlock E d tr = (Inr (), tr @ [] @ [Log AuditNotAvailableForWorkspace])"
    by (simp add: yarnCatchBlock_def is_workspace_root_def io_defs)
  with True show ?thesis by fastforce
next
  case False
  let ?tr1 = "tr @ [Log YarnAuditFailedFallingBack]"
  obtain new x where b: "npmAuditBlock E d ?tr1 = (Inr (), ?tr1 @ new @ [x])"
    "calls (new @ [x]) = []" "execs (new @ [x]) = npm_execs E d ?tr1"
    "if isl (fst (npmAttempt E d ?tr1)) then x = Log AuditCouldNotBeCompleted else is_report x"
    using npmAuditBlock_trace by blast
  from False have "yarnCatchBlock E d tr = npmAuditBlock E d ?tr1"
    by (auto simp: yarnCatchBlock_def is_workspace_root_def io_defs)
  with b(1) have "yarnCatchBlock E d tr = (Inr (), tr @ (Log YarnAuditFailedFallingBack # new) @ [x])"
    by simp
  moreover have "calls ((Log YarnAuditFailedFallingBack # new) @ [x]) = []"
    using b(2) by simp
  moreover have "execs ((Log YarnAuditFailedFallingBack # new) @ [x]) = npm_execs E d ?tr1"
    using b(3) by simp
  moreover have "Log YarnAuditFailedFallingBack \<in> set (Log YarnAuditFailedFallingBack # new)"
    by simp
  ultimately show ?thesis using False b(4) by (metis (full_types))
qed

lemma yarnAttempt_trace:
  "\<exists>new. snd (yarnAttempt E d pm tr) = tr @ new \<and> calls new = [] \<and>
     execs new =
       (if js_not (version pm) then npm_execs E d (tr @ [Log YarnNotFoundFallingBack])
        else [(yarn_audit_command pm, Some d)]) \<and>
     (fst (yarnAttempt E d pm tr) = Inr () \<longrightarrow> new \<noteq> [] \<and> is_report (last new))"
proof (cases "js_not (version pm)")
  case True
  let ?tr1 = "tr @ [Log YarnNotFoundFallingBack]"
  obtain new1 where n: "snd (npmAttempt E d ?tr1) = ?tr1 @ new1" "calls new1 = []"
    "execs new1 = npm_execs E d ?tr1"
    "fst (npmAttempt E d ?tr1) = Inr () \<longrightarrow> new1 \<noteq> [] \<and> is_report (last new1)"
    using npmAttempt_trace by blast
  have a: "yarnAttempt E d pm tr = npmAttempt E d ?tr1"
    using True by (simp add: yarnAttempt_def io_bind_def log_def)
  have "snd (yarnAttempt E d pm tr) = tr @ (Log YarnNotFoundFallingBack # new1)"
    using a n(1) by simp
  moreover have "calls (Log YarnNotFoundFallingBack # new1) = []"
    "execs (Log YarnNotFoundFallingBack # new1) = npm_execs E d ?tr1"
    using n by simp_all
  moreover have "fst (yarnAttempt E d pm tr) = Inr () \<longrightarrow>
      Log YarnNotFoundFallingBack # new1 \<noteq> [] \<and> is_report (last (Log YarnNotFoundFallingBack # new1))"
    using a n(4) by simp
  ultimately show ?thesis using True by (metis (full_types))
next
  case False
  then show ?thesis
    by (auto simp: yarnAttempt_def runYarnAudit_def displayYarnAuditResults_def
        yarn_audit_command_def io_defs split: option.splits)
qed

text \<open>The per-directory audit, unfolded into its blocks.\<close>

lemma runSecurityAuditForDirectory_unfold:
  "runSecurityAuditForDirectory E d pm tr =
     (if manager pm = ManagerYarn then
        (case yarnAttempt E d pm (tr @ [Call d]) of
           (Inr u, tr1) \<Rightarrow> (Inr (), tr1)
         | (Inl e, tr1) \<Rightarrow> yarnCatchBlock E d tr1)
      else npmAuditBlock E d (tr @ [Call d]))"
  by (simp add: runSecurityAuditForDirectory_def yarnCatchBlock_def npmAuditBlock_def
      yarnAttempt_def npmAttempt_def io_bind_def io_catch_def
      split: sum.splits prod.splits)

lemma runSecurityAuditForDirectory_trace:
  "\<exists>new x. runSecurityAuditForDirectory E d pm tr = (Inr (), tr @ Call d # new @ [x]) \<and>
     calls (new @ [x]) = [] \<and> (is_report x \<or> is_failure_diag x)"
proof (cases "manager pm = ManagerYarn")
  case False
  obtain new x where b: "npmAuditBlock E d (tr @ [Call d]) = (Inr (), (tr @ [Call d]) @ new @ [x])"
    "calls (new @ [x]) = []"
    "if isl (fst (npmAttempt E d (tr @ [Call d]))) then x = Log AuditCouldNotBeCompleted
     else is_report x"
    using npmAuditBlock_trace by blast
  from b(3) have "is_report x \<or> is_failure_diag x" by (auto split: if_splits)
  with b(1,2) False show ?thesis
    by (simp add: runSecurityAuditForDirectory_unfold)
next
  case yarn: True
  let ?tr0 = "tr @ [Call d]"
  obtain new1 where n: "snd (yarnAttempt E d pm ?tr0) = ?tr0 @ new1" "calls new1 = []"
    "fst (yarnAttempt E d pm ?tr0) = Inr () \<longrightarrow> new1 \<noteq> [] \<and> is_report (last new1)"
    using yarnAttempt_trace by blast
  obtain r tr1 where rt: "yarnAttempt E d pm ?tr0 = (r, tr1)"
    by (cases "yarnAttempt E d pm ?tr0")
  with n have tr1: "tr1 = ?tr0 @ new1" by simp
  show ?thesis
  proof (cases r)
    case (Inr u)
    with rt n(3) have ne: "new1 \<noteq> []" "is_report (last new1)" by simp_all
    then have s: "new1 = butlast new1 @ [last new1]" by simp
    have "runSecurityAuditForDirectory E d pm tr = (Inr (), tr @ Call d # new1)"
      using yarn rt tr1 Inr by (simp add: runSecurityAuditForDirectory_unfold)
    with s have "runSecurityAuditForDirectory E d pm tr =
        (Inr (), tr @ Call d # butlast new1 @ [last new1])" by simp
    moreover have "calls (butlast new1 @ [last new1]) = []" using n(2) s by simp
    ultimately show ?thesis using ne(2) by blast
  next
    case (Inl e)
    obtain new2 x where c: "yarnCatchBlock E d tr1 = (Inr (), tr1 @ new2 @ [x])"
      "calls (new2 @ [x]) = []"
      "if is_workspace_root E d then x = Log AuditNotAvailableForWorkspace
       else Log YarnAuditFailedFallingBack \<in> set new2 \<and>
           (if isl (fst (npmAttempt E d (tr1 @ [Log YarnAuditFailedFallingBack])))
            then x = Log AuditCouldNotBeCompleted else is_report x)"
      using yarnCatchBlock_trace by blast
    from c(3) have x: "is_report x \<or> is_failure_diag x" by (auto split: if_splits)
    have "runSecurityAuditForDirectory E d pm tr = (Inr (), tr @ Call d # (new1 @ new2) @ [x])"
      using yarn rt tr1 Inl c(1) by (simp add: runSecurityAuditForDirectory_unfold)
    moreover have "calls ((new1 @ new2) @ [x]) = []"
      using n(2) c(2) by (simp add: calls_append)
    ultimately show ?thesis using x by blast
  qed
qed

lemma split_not_Nil: "split sep s \<noteq> []"
  by (induction s) (auto split: list.splits)

lemma hd_split: "hd (split sep s) = takeWhile (\<lambda>c. c \<noteq> sep) s"
  using split_not_Nil [of sep] by (induction s) (auto split: list.splits)

lemma runSecurityAuditForDirectory_calls:
  "fst (runSecurityAuditForDirectory E d pm tr) = Inr () \<and>
   (\<exists>new. snd (runSecurityAuditForDirectory E d pm tr) = tr @ new \<and> calls new = [d])"
proof -
  obtain new x where "runSecurityAuditForDirectory E d pm tr = (Inr (), tr @ Call d # new @ [x])"
    "calls (new @ [x]) = []"
    using runSecurityAuditForDirectory_trace by blast
  then show ?thesis by simp
qed

lemma auditEntries_trace:
  "\<exists>new. auditEntries E pm base es tr =
      (if snd (visitedEntries E base es) then Inr () else Inl FsError, tr @ new) \<and>
     calls new = fst (visitedEntries E base es)"
proof (induction es arbitrary: tr)
  case Nil
  show ?case by simp
next
  case (Cons entry es)
  let ?p = "path_join E [cwd E, base, entry]"
  show ?case
  proof (cases "statSync_isDirectory E ?p")
    case None
    then show ?thesis by simp
  next
    case (Some isDir)
    show ?thesis
    proof (cases "is_member E base entry")
      case False
      obtain new where "auditEntries E pm base es tr =
          (if snd (visitedEntries E base es) then Inr () else Inl FsError, tr @ new)"
        "calls new = fst (visitedEntries E base es)"
        using Cons.IH by blast
      with Some False show ?thesis
        by (auto simp: is_member_def split: prod.splits)
    next
      case True
      let ?tr0 = "tr @ [Log (CheckingWorkspace (path_relative E (cwd E) ?p))]"
      obtain new1 where a: "fst (runSecurityAuditForDirectory E ?p pm ?tr0) = Inr ()"
        "snd (runSecurityAuditForDirectory E ?p pm ?tr0) = ?tr0 @ new1" "calls new1 = [?p]"
        using runSecurityAuditForDirectory_calls by blast
      then have a': "runSecurityAuditForDirectory E ?p pm ?tr0 = (Inr (), ?tr0 @ new1)"
        by (metis prod.collapse)
      obtain new2 where b: "auditEntries E pm base es (?tr0 @ new1) =
          (if snd (visitedEntries E base es) then Inr () else Inl FsError, (?tr0 @ new1) @ new2)"
        "calls new2 = fst (visitedEntries E base es)"
        using Cons.IH by blast
      have "auditEntries E pm base (entry # es) tr = auditEntries E pm base es (?tr0 @ new1)"
        using Some True a' by (simp add: is_member_def io_bind_def log_def)
      with b(1) have "auditEntries E pm base (entry # es) tr =
          (if snd (visitedEntries E base es) then Inr () else Inl FsError,
           tr @ (Log (CheckingWorkspace (path_relative E (cwd E) ?p)) # new1 @ new2))"
        by simp
      moreover have "calls (Log (CheckingWorkspace (path_relative E (cwd E) ?p)) # new1 @ new2)
          = ?p # fst (visitedEntries E base es)"
        using a(3) b(2) by (simp add: calls_append)
      moreover have "visitedEntries E base (entry # es) =
          (?p # fst (visitedEntries E base es), snd (visitedEntries E base es))"
        using Some True by (simp split: prod.splits)
      ultimately show ?thesis by (metis fst_conv snd_conv)
    qed
  qed
qed

lemma auditPatterns_trace:
  "\<exists>new. auditPatterns E pm pats tr =
      (if snd (visitedPatterns E pats) then Inr () else Inl FsError, tr @ new) \<and>
     calls new = fst (visitedPatterns E pats)"
proof (induction pats arbitrary: tr)
  case Nil
  show ?case by simp
next
  case (Cons pattern pats)
  let ?b = "path_join E [cwd E, basePath_of pattern]"
  show ?case
  proof (cases "existsSync E ?b")
    case False
    with Cons.IH [of tr] show ?thesis by simp
  next
    case True
    show ?thesis
    proof (cases "readdirSync E ?b")
      case None
      with True show ?thesis by simp
    next
      case (Some entries)
      obtain new1 where a: "auditEntries E pm (basePath_of pattern) entries tr =
          (if snd (visitedEntries E (basePath_of pattern) entries) then Inr () else Inl FsError,
           tr @ new1)"
        "calls new1 = fst (visitedEntries E (basePath_of pattern) entries)"
        using auditEntries_trace by blast
      show ?thesis
      proof (cases "snd (visitedEntries E (basePath_of pattern) entries)")
        case False
        with True Some a show ?thesis
          by (auto split: prod.splits)
      next
        case ok: True
        obtain new2 where b: "auditPatterns E pm pats (tr @ new1) =
            (if snd (visitedPatterns E pats) then Inr () else Inl FsError, (tr @ new1) @ new2)"
          "calls new2 = fst (visitedPatterns E pats)"
          using Cons.IH by blast
        have "auditPatterns E pm (pattern # pats) tr =
            (if snd (visitedPatterns E pats) then Inr () else Inl FsError, tr @ (new1 @ new2))"
          using True Some a(1) ok b(1) by simp
        moreover have "calls (new1 @ new2) =
            fst (visitedEntries E (basePath_of pattern) entries) @ fst (visitedPatterns E pats)"
          using a(2) b(2) by (simp add: calls_append)
        moreover have "visitedPatterns E (pattern # pats) =
            (fst (visitedEntries E (basePath_of pattern) entries) @ fst (visitedPatterns E pats),
             snd (visitedPatterns E pats))"
          using True Some ok
          by (cases "visitedEntries E (basePath_of pattern) entries";
              cases "visitedPatterns E pats") simp_all
        ultimately show ?thesis by (metis fst_conv snd_conv)
      qed
    qed
  qed
qed

lemma visitedEntries_listable:
  "list_all (\<lambda>entry. statSync_isDirectory E (path_join E [cwd E, base, entry]) \<noteq> None) es \<Longrightarrow>
   visitedEntries E base es =
     (map (\<lambda>entry. path_join E [cwd E, base, entry]) (filter (is_member E base) es), True)"
  by (induction es) (auto split: option.splits prod.splits)


lemma runSecurityAudit_trace:
  "\<exists>new. runSecurityAudit E pm tr =
      (if hasWorkspaces (getWorkspaceInfo E (cwd E)) \<longrightarrow>
          snd (visitedPatterns E (packages (getWorkspaceInfo E (cwd E))))
       then Inr () else Inl FsError, tr @ new) \<and>
     calls new = cwd E #
       (if hasWorkspaces (getWorkspaceInfo E (cwd E))
        then fst (visitedPatterns E (packages (getWorkspaceInfo E (cwd E)))) else [])"
proof (cases "hasWorkspaces (getWorkspaceInfo E (cwd E))")
  case False
  obtain new where "fst (runSecurityAuditForDirectory E (cwd E) pm tr) = Inr ()"
    "snd (runSecurityAuditForDirectory E (cwd E) pm tr) = tr @ new" "calls new = [cwd E]"
    using runSecurityAuditForDirectory_calls by blast
  then have "runSecurityAuditForDirectory E (cwd E) pm tr = (Inr (), tr @ new) \<and> calls new = [cwd E]"
    by (metis prod.collapse)
  with False show ?thesis by (simp add: runSecurityAudit_def)
next
  case True
  let ?tr0 = "tr @ [Log DetectedWorkspaceProject, Log CheckingRootProject]"
  let ?pats = "packages (getWorkspaceInfo E (cwd E))"
  obtain new1 where a: "fst (runSecurityAuditForDirectory E (cwd E) pm ?tr0) = Inr ()"
    "snd (runSecurityAuditForDirectory E (cwd E) pm ?tr0) = ?tr0 @ new1" "calls new1 = [cwd E]"
    using runSecurityAuditForDirectory_calls by blast
  then have a': "runSecurityAuditForDirectory E (cwd E) pm ?tr0 = (Inr (), ?tr0 @ new1)"
    by (metis prod.collapse)
  obtain new2 where b: "auditPatterns E pm ?pats (?tr0 @ new1) =
      (if snd (visitedPatterns E ?pats) then Inr () else Inl FsError, (?tr0 @ new1) @ new2)"
    "calls new2 = fst (visitedPatterns E ?pats)"
    using auditPatterns_trace by blast
  have "runSecurityAudit E pm tr = auditPatterns E pm ?pats (?tr0 @ new1)"
    using True a' by (simp add: runSecurityAudit_def io_bind_def log_def)
  with b(1) have "runSecurityAudit E pm tr =
      (if snd (visitedPatterns E ?pats) then Inr () else Inl FsError,
       tr @ (Log DetectedWorkspaceProject # Log CheckingRootProject # new1 @ new2))"
    by simp
  moreover have "calls (Log DetectedWorkspaceProject # Log CheckingRootProject # new1 @ new2)
      = cwd E # fst (visitedPatterns E ?pats)"
    using a(3) b(2) by (simp add: calls_append)
  ultimately show ?thesis using True by auto
qed

lemma visitedEntries_prefix:
  "prefix (fst (visitedEntries E base es))
     (map (\<lambda>entry. path_join E [cwd E, base, entry]) (filter (is_member E base) es))"
  by (induction es) (auto split: option.splits prod.splits)

lemma visitedEntries_ok_iff:
  "snd (visitedEntries E base es) \<longleftrightarrow>
   list_all (\<lambda>entry. statSync_isDirectory E (path_join E [cwd E, base, entry]) \<noteq> None) es"
  by (induction es) (auto split: option.splits prod.splits)


lemma visitedPatterns_prefix:
  "prefix (fst (visitedPatterns E pats)) (concat (map (workspace_members E) pats))"
proof (induction pats)
  case Nil
  show ?case by simp
next
  case (Cons p pats)
  let ?b = "path_join E [cwd E, basePath_of p]"
  show ?case
  proof (cases "existsSync E ?b")
    case False
    then have "workspace_members E p = []" by (simp add: workspace_members_def)
    with False Cons.IH show ?thesis by simp
  next
    case True
    show ?thesis
    proof (cases "readdirSync E ?b")
      case None
      with True show ?thesis by simp
    next
      case (Some es)
      have m: "workspace_members E p =
          map (\<lambda>entry. path_join E [cwd E, basePath_of p, entry])
            (filter (is_member E (basePath_of p)) es)"
        using True Some by (simp add: workspace_members_def)
      obtain ds ok where v: "visitedEntries E (basePath_of p) es = (ds, ok)"
        by (cases "visitedEntries E (basePath_of p) es")
      have p1: "prefix ds (workspace_members E p)"
        using visitedEntries_prefix [of E "basePath_of p" es] v m by simp
      show ?thesis
      proof (cases ok)
        case False
        with True Some v p1 show ?thesis by (simp add: prefix_prefix)
      next
        case ok: True
        then have "list_all (\<lambda>entry. statSync_isDirectory E
            (path_join E [cwd E, basePath_of p, entry]) \<noteq> None) es"
          using v visitedEntries_ok_iff [of E "basePath_of p" es] by simp
        from visitedEntries_listable [OF this] v m have "ds = workspace_members E p" by simp
        with True Some v ok Cons.IH show ?thesis
          by (cases "visitedPatterns E pats") simp
      qed
    qed
  qed
qed

lemma replace_absent: "\<not> contains pat s \<Longrightarrow> replace pat rep s = s"
  by (induction s) auto

lemma replace_slash_star_first:
  "\<not> contains ''/*'' (pre @ ''/'') \<Longrightarrow> replace ''/*'' rep (pre @ ''/*'' @ post) = pre @ rep @ post"
proof (induction pre)
  case Nil
  show ?case by simp
next
  case (Cons c pre)
  then have a: "\<not> prefix ''/*'' (c # pre @ ''/'')" and b: "\<not> contains ''/*'' (pre @ ''/'')"
    by simp_all
  from a have np: "\<not> prefix ''/*'' (c # pre @ ''/*'' @ post)"
    by (cases pre) auto
  have "replace ''/*'' rep (c # pre @ ''/*'' @ post) = c # replace ''/*'' rep (pre @ ''/*'' @ post)"
    using np by (simp only: replace.simps if_False)
  with Cons.IH [OF b] show ?case by (simp only: append_Cons)
qed

lemma suffix_slash_star_strip:
  "strip_trailing_slash_star (pre @ ''/*'') = pre"
  by (simp add: strip_trailing_slash_star_def suffix_def)

lemma not_contains_not_suffix: "\<not> contains pat s \<Longrightarrow> pat \<noteq> [] \<Longrightarrow> \<not> suffix pat s"
proof (induction s)
  case Nil
  then show ?case by simp
next
  case (Cons c s)
  then show ?case
    by (auto simp: suffix_Cons)
qed

lemma getYarnVersion_eq:
  "getYarnVersion E tr =
     (Inr (case execPromise E tr ''yarn --version'' None of
             None \<Rightarrow> None | Some (stdout, stderr) \<Rightarrow> Some (trim stdout)),
      tr @ [Exec ''yarn --version'' None])"
  by (simp add: getYarnVersion_def io_defs split: option.splits prod.splits)

lemma runYarnAudit_fails_iff:
  "isl (fst (runYarnAudit E d (if type pm = Some Npm then None else type pm) tr)) \<longleftrightarrow>
   execPromise E tr (yarn_audit_command pm) (Some d) = None"
  by (auto simp: runYarnAudit_def exec_def yarn_audit_command_def split: option.splits)

lemma count_npm_audit:
  "count_list (npm_execs E d tr) (''npm audit --json'', Some d) = 1"
  by (simp add: npm_execs_def)

lemma yarn_audit_command_not_npm: "yarn_audit_command pm \<noteq> ''npm audit --json''"
  by (simp add: yarn_audit_command_def)


lemma runSecurityAudit_calls:
  "calls (since tr (snd (runSecurityAudit E pm tr))) =
     cwd E # (if hasWorkspaces (getWorkspaceInfo E (cwd E))
              then fst (visitedPatterns E (packages (getWorkspaceInfo E (cwd E)))) else [])"
proof -
  obtain new where n: "runSecurityAudit E pm tr =
      (if hasWorkspaces (getWorkspaceInfo E (cwd E)) \<longrightarrow>
          snd (visitedPatterns E (packages (getWorkspaceInfo E (cwd E))))
       then Inr () else Inl FsError, tr @ new)"
     "calls new = cwd E #
       (if hasWorkspaces (getWorkspaceInfo E (cwd E))
        then fst (visitedPatterns E (packages (getWorkspaceInfo E (cwd E)))) else [])"
    using runSecurityAudit_trace by blast
  from n(1) have "since tr (snd (runSecurityAudit E pm tr)) = new"
    by (simp only: snd_conv since_append)
  with n(2) show ?thesis by simp
qed


lemma workspace_members_elem:
  assumes "d \<in> set (workspace_members E p)"
  shows "\<exists>entries entry.
     readdirSync E (path_join E [cwd E, basePath_of p]) = Some entries \<and>
     entry \<in> set entries \<and> d = path_join E [cwd E, basePath_of p, entry] \<and>
     statSync_isDirectory E d = Some True \<and> existsSync E (path_join E [d, ''package.json''])"
proof (cases "readdirSync E (path_join E [cwd E, basePath_of p])")
  case None
  then have "workspace_members E p = []" by (simp add: workspace_members_def)
  with assms show ?thesis by simp
next
  case (Some entries)
  have "d \<in> set (map (\<lambda>entry. path_join E [cwd E, basePath_of p, entry])
      (filter (is_member E (basePath_of p)) entries))"
    using assms Some
    by (cases "existsSync E (path_join E [cwd E, basePath_of p])")
      (simp_all add: workspace_members_def)
  then obtain entry where "entry \<in> set entries" "is_member E (basePath_of p) entry"
    "d = path_join E [cwd E, basePath_of p, entry]"
    by auto
  with Some show ?thesis by (auto simp: is_member_def)
qed

lemma yarnAttempt_yarn_fails:
  assumes "\<not> js_not (version pm)"
    and "isl (fst (runYarnAudit E d (if type pm = Some Npm then None else type pm) tr))"
  shows "yarnAttempt E d pm tr = (Inl ExecError, tr @ [Exec (yarn_audit_command pm) (Some d)])"
  using assms
  by (auto simp: yarnAttempt_def runYarnAudit_def yarn_audit_command_def io_defs
      split: option.splits)

lemma yarnAttempt_version_unknown:
  "js_not (version pm) \<Longrightarrow>
   yarnAttempt E d pm tr = npmAttempt E d (tr @ [Log YarnNotFoundFallingBack])"
  by (simp add: yarnAttempt_def io_bind_def log_def)

lemmas run_defs = runSecurityAuditForDirectory_def runNpmAudit_def runYarnAudit_def
  displayNpmAuditResults_def displayYarnAuditResults_def npmAttempt_def yarnAttempt_def
  io_defs existsSync_at_def lock_written_def js_not_def js_keys_empty_def since_def






text \<open>The record of \<open>detectPackageManager\<close> when the yarn lock file is there.\<close>

lemma detectPackageManager_yarn_display:
  assumes "existsSync E (path_join E [dir, ''yarn.lock''])"
  shows "\<exists>info. fst (detectPackageManager E dir tr) = Inr info \<and>
     manager info = ManagerYarn \<and>
     type info = getYarnVersionType (version info) \<and>
     (\<forall>v. version info = Some v \<and> type info = Some Yarn2Plus \<longrightarrow>
        displayName info = ''yarn '' @ v @ '' (2+)'') \<and>
     (\<forall>v. version info = Some v \<and> type info = Some Yarn1 \<longrightarrow>
        displayName info = ''yarn '' @ v @ '' (1.x)'') \<and>
     (\<forall>stdout stderr. execPromise E tr ''yarn --version'' None = Some (stdout, stderr) \<longrightarrow>
        version info = Some (trim stdout)) \<and>
     (execPromise E tr ''yarn --version'' None = None \<longrightarrow>
        version info = None \<and> type info = None \<and> displayName info = ''yarn null (1.x)'')"
  using assms
  by (auto simp: detectPackageManager_def getYarnVersion_eq io_defs Let_def template_def
      getYarnVersionType_def split: option.splits)

section \<open>Results: the version classifier\<close>

text \<open>
  C1, as the spec states it, fails: a non-empty version whose part before the first dot
  has no leading integer is classified \<open>yarn1\<close>, not null, because NaN \<open>>= 2\<close> is
  false and the code has only the two-way choice. Here the input is \<open>abc\<close>.
\<close>

theorem getYarnVersionType_unparsable_is_yarn1:
  "parseInt (beforeFirstDot ''abc'') = None \<and> getYarnVersionType (Some ''abc'') = Some Yarn1"
  by (simp add: getYarnVersionType_def parseInt_def isWhiteSpace_def isDigit_def
      beforeFirstDot_def)

text \<open>
  C1, amended: null and undefined give null, and so does the empty string and nothing
  else; a non-empty version is \<open>yarn2+\<close> exactly when the integer parsed from the part
  before the first dot is at least 2, and \<open>yarn1\<close> in every other case, that is when the
  integer is below 2 (negative ones too) or when there is no integer to parse.
\<close>

theorem getYarnVersionType_classifies:
  "getYarnVersionType None = None \<and>
   (getYarnVersionType (Some v) = None \<longleftrightarrow> v = []) \<and>
   (getYarnVersionType (Some v) = Some Yarn2Plus \<longleftrightarrow>
      v \<noteq> [] \<and> (\<exists>n. parseInt (beforeFirstDot v) = Some n \<and> 2 \<le> n)) \<and>
   (getYarnVersionType (Some v) = Some Yarn1 \<longleftrightarrow>
      v \<noteq> [] \<and> (parseInt (beforeFirstDot v) = None \<or>
                 (\<exists>n. parseInt (beforeFirstDot v) = Some n \<and> n < 2)))"
  by (cases "parseInt (beforeFirstDot v)")
     (auto simp: getYarnVersionType_def hd_split beforeFirstDot_def Let_def)

text \<open>The examples of the spec and of tests/core.test.ts, and a negative major version.\<close>

theorem getYarnVersionType_classifies_witness:
  "getYarnVersionType (Some ''2.4.3'') = Some Yarn2Plus \<and>
   getYarnVersionType (Some ''1.22.19'') = Some Yarn1 \<and>
   getYarnVersionType (Some ''0.27.5'') = Some Yarn1 \<and>
   getYarnVersionType (Some ''2.0.0-beta.1'') = Some Yarn2Plus \<and>
   getYarnVersionType (Some ''-1.0'') = Some Yarn1 \<and>
   getYarnVersionType (Some []) = None"
  using getYarnVersionType_classifies [of "''2.4.3''"]
    getYarnVersionType_classifies [of "''1.22.19''"]
    getYarnVersionType_classifies [of "''0.27.5''"]
    getYarnVersionType_classifies [of "''2.0.0-beta.1''"]
    getYarnVersionType_classifies [of "''-1.0''"]
    getYarnVersionType_classifies [of "[]"]
  by (simp add: parseInt_def isWhiteSpace_def isDigit_def beforeFirstDot_def mathInt_def
      digitValue_def)

section \<open>Results: the manifest reader\<close>

text \<open>
  C5: when the manifest is absent, or when its text does not parse, \<open>getWorkspaceInfo\<close>
  returns \<open>{hasWorkspaces: false, packages: []}\<close>. In the second case the try block
  raises the parse error and the catch clause of the function turns it into the
  default: nothing is thrown to the caller. A manifest that is there and cannot be
  read ends the same way.
\<close>

theorem getWorkspaceInfo_absent_or_malformed:
  "(\<not> existsSync E (path_join E [dir, ''package.json'']) \<longrightarrow>
      getWorkspaceInfo_try E dir = Inr \<lparr>hasWorkspaces = False, packages = []\<rparr> \<and>
      getWorkspaceInfo E dir = \<lparr>hasWorkspaces = False, packages = []\<rparr>) \<and>
   (existsSync E (path_join E [dir, ''package.json'']) \<and>
    readFileSync E (path_join E [dir, ''package.json'']) = Some content \<and>
    JSON_parse_PackageJson E content = None \<longrightarrow>
      getWorkspaceInfo_try E dir = Inl SyntaxError \<and>
      getWorkspaceInfo E dir = \<lparr>hasWorkspaces = False, packages = []\<rparr>) \<and>
   (existsSync E (path_join E [dir, ''package.json'']) \<and>
    readFileSync E (path_join E [dir, ''package.json'']) = None \<longrightarrow>
      getWorkspaceInfo_try E dir = Inl FsError \<and>
      getWorkspaceInfo E dir = \<lparr>hasWorkspaces = False, packages = []\<rparr>)"
  by (simp add: getWorkspaceInfo_def getWorkspaceInfo_try_def)

theorem getWorkspaceInfo_absent_or_malformed_witness:
  "\<not> existsSync monorepo (path_join monorepo [''/proj/packages'', ''package.json'']) \<and>
   getWorkspaceInfo monorepo ''/proj/packages'' = \<lparr>hasWorkspaces = False, packages = []\<rparr> \<and>
   existsSync monorepo (path_join monorepo [''/proj/packages/a'', ''package.json'']) \<and>
   readFileSync monorepo (path_join monorepo [''/proj/packages/a'', ''package.json''])
     = Some ''invalid json'' \<and>
   JSON_parse_PackageJson monorepo ''invalid json'' = None \<and>
   getWorkspaceInfo_try monorepo ''/proj/packages/a'' = Inl SyntaxError \<and>
   getWorkspaceInfo monorepo ''/proj/packages/a'' = \<lparr>hasWorkspaces = False, packages = []\<rparr> \<and>
   readFileSync (monorepo\<lparr>readFileSync := (\<lambda>p. None)\<rparr>)
     (path_join monorepo [''/proj'', ''package.json'']) = None \<and>
   getWorkspaceInfo (monorepo\<lparr>readFileSync := (\<lambda>p. None)\<rparr>) ''/proj'' =
     \<lparr>hasWorkspaces = False, packages = []\<rparr>"
  using getWorkspaceInfo_absent_or_malformed [of monorepo "''/proj/packages''"]
    getWorkspaceInfo_absent_or_malformed [of monorepo "''/proj/packages/a''" "''invalid json''"]
    getWorkspaceInfo_absent_or_malformed
      [of "monorepo\<lparr>readFileSync := (\<lambda>p. None)\<rparr>" "''/proj''"]
  by (simp add: monorepo_def)

text \<open>
  C6: for a manifest that is there and parses, a \<open>workspaces\<close> record with a
  \<open>packages\<close> sequence gives that sequence with \<open>hasWorkspaces\<close> true, whatever
  \<open>nohoist\<close> holds, and a \<open>workspaces\<close> sequence is returned as it is.
\<close>

theorem getWorkspaceInfo_packages:
  "existsSync E (path_join E [dir, ''package.json'']) \<and>
   readFileSync E (path_join E [dir, ''package.json'']) = Some content \<and>
   JSON_parse_PackageJson E content = Some packageJson \<and>
   (workspaces packageJson = Some (WorkspacesRecord (Some ps) nohoist) \<or>
    workspaces packageJson = Some (WorkspacesArray ps)) \<longrightarrow>
   getWorkspaceInfo E dir = \<lparr>hasWorkspaces = True, packages = ps\<rparr>"
  by (auto simp: getWorkspaceInfo_def getWorkspaceInfo_try_def)

theorem getWorkspaceInfo_packages_witness:
  "getWorkspaceInfo nohoist_repo ''/proj'' =
     \<lparr>hasWorkspaces = True, packages = [''packages/*'', ''tools/*'']\<rparr> \<and>
   getWorkspaceInfo monorepo ''/proj'' = \<lparr>hasWorkspaces = True, packages = [''packages/*'']\<rparr>"
  using getWorkspaceInfo_packages [of nohoist_repo "''/proj''" "''root manifest''"
      "\<lparr>workspaces = Some (WorkspacesRecord (Some [''packages/*'', ''tools/*''])
            (Some [''**/react-native'', ''**/react-native/**'']))\<rparr>"
      "[''packages/*'', ''tools/*'']" "Some [''**/react-native'', ''**/react-native/**'']"]
    getWorkspaceInfo_packages [of monorepo "''/proj''" "''root manifest''"
      "\<lparr>workspaces = Some (WorkspacesArray [''packages/*''])\<rparr>" "[''packages/*'']"]
  by (simp add: monorepo_def nohoist_repo_def)

section \<open>Results: the environment detector\<close>

text \<open>
  C7: the yarn lock file decides first, whether or not the npm lock file is there as
  well; then the npm lock file; with neither the result is the npm record with the
  display name \<open>npm (default)\<close>.
\<close>

theorem detectPackageManager_priority:
  "(existsSync E (path_join E [dir, ''yarn.lock'']) \<longrightarrow>
      (\<exists>info. fst (detectPackageManager E dir tr) = Inr info \<and> manager info = ManagerYarn)) \<and>
   (\<not> existsSync E (path_join E [dir, ''yarn.lock'']) \<and>
    existsSync E (path_join E [dir, ''package-lock.json'']) \<longrightarrow>
      detectPackageManager E dir tr =
        (Inr \<lparr>manager = ManagerNpm, version = None, type = Some Npm, displayName = ''npm''\<rparr>,
         tr)) \<and>
   (\<not> existsSync E (path_join E [dir, ''yarn.lock'']) \<and>
    \<not> existsSync E (path_join E [dir, ''package-lock.json'']) \<longrightarrow>
      detectPackageManager E dir tr =
        (Inr \<lparr>manager = ManagerNpm, version = None, type = Some Npm,
              displayName = ''npm (default)''\<rparr>, tr))"
  by (simp add: detectPackageManager_def getYarnVersion_eq io_defs Let_def)

theorem detectPackageManager_priority_witness:
  "existsSync monorepo (path_join monorepo [''/proj'', ''yarn.lock'']) \<and>
   (\<exists>info. fst (detectPackageManager monorepo ''/proj'' []) = Inr info \<and>
      manager info = ManagerYarn) \<and>
   (\<exists>info. fst (detectPackageManager
        (monorepo\<lparr>existsSync := (\<lambda>p. p = ''/proj/yarn.lock'' \<or> p = ''/proj/package-lock.json'')\<rparr>)
        ''/proj'' []) = Inr info \<and> manager info = ManagerYarn) \<and>
   detectPackageManager monorepo ''/proj/packages/b'' [] =
     (Inr \<lparr>manager = ManagerNpm, version = None, type = Some Npm,
           displayName = ''npm (default)''\<rparr>, []) \<and>
   detectPackageManager
     (monorepo\<lparr>existsSync := (\<lambda>p. p = ''/proj/package-lock.json'')\<rparr>) ''/proj'' [] =
     (Inr \<lparr>manager = ManagerNpm, version = None, type = Some Npm, displayName = ''npm''\<rparr>, [])"
  using detectPackageManager_priority [of monorepo "''/proj''" "[]"]
    detectPackageManager_priority
      [of "monorepo\<lparr>existsSync :=
            (\<lambda>p. p = ''/proj/yarn.lock'' \<or> p = ''/proj/package-lock.json'')\<rparr>" "''/proj''" "[]"]
    detectPackageManager_priority [of monorepo "''/proj/packages/b''" "[]"]
    detectPackageManager_priority
      [of "monorepo\<lparr>existsSync := (\<lambda>p. p = ''/proj/package-lock.json'')\<rparr>" "''/proj''" "[]"]
  by (simp add: monorepo_def)

text \<open>
  C8: the code does not do what the spec says when \<open>yarn --version\<close> fails. A project
  with \<open>yarn.lock\<close> and no yarn that runs gets manager yarn, version null and type
  null, and the display name \<open>yarn null (1.x)\<close>: the form of a version classified
  \<open>yarn1\<close>, around the word null. It is letter for letter the display name of a yarn
  that answers \<open>null\<close> and is classified \<open>yarn1\<close>, so the display does not tell that
  the version is unknown.
\<close>

theorem detectPackageManager_unknown_version_display:
  "existsSync offline_repo (path_join offline_repo [''/proj'', ''yarn.lock'']) \<and>
   execPromise offline_repo [] ''yarn --version'' None = None \<and>
   fst (detectPackageManager offline_repo ''/proj'' []) =
     Inr \<lparr>manager = ManagerYarn, version = None, type = None,
          displayName = ''yarn null (1.x)''\<rparr> \<and>
   fst (detectPackageManager null_version_repo ''/proj'' []) =
     Inr \<lparr>manager = ManagerYarn, version = Some ''null'', type = Some Yarn1,
          displayName = ''yarn null (1.x)''\<rparr>"
  by (simp add: detectPackageManager_def getYarnVersion_eq io_defs template_def trim_def
      isWhiteSpace_def getYarnVersionType_def parseInt_def isDigit_def
      offline_repo_def null_version_repo_def monorepo_def)

section \<open>Results: the per-directory audit\<close>

text \<open>
  C3: when the manager is yarn, the version is known and \<open>runYarnAudit\<close> fails for the
  directory, the commands of the step are the yarn audit and then, unless the directory
  is the root of a project with workspaces, those of one npm audit of the same directory:
  \<open>npm audit --json\<close> runs exactly once there, and not at all for such a root.
\<close>

theorem yarn_failure_npm_fallback:
  assumes "manager pm = ManagerYarn" and "\<not> js_not (version pm)"
    and "isl (fst (runYarnAudit E d (if type pm = Some Npm then None else type pm)
           (tr @ [Call d])))"
  shows "execs (since tr (snd (runSecurityAuditForDirectory E d pm tr))) =
           (yarn_audit_command pm, Some d) #
           (if is_workspace_root E d then []
            else npm_execs E d
                   (tr @ [Call d, Exec (yarn_audit_command pm) (Some d),
                          Log YarnAuditFailedFallingBack])) \<and>
         count_list (execs (since tr (snd (runSecurityAuditForDirectory E d pm tr))))
           (''npm audit --json'', Some d) = (if is_workspace_root E d then 0 else 1)"
proof -
  let ?cmd = "yarn_audit_command pm"
  let ?tr1 = "tr @ [Call d, Exec ?cmd (Some d)]"
  have f: "yarnAttempt E d pm (tr @ [Call d]) = (Inl ExecError, ?tr1)"
    using yarnAttempt_yarn_fails [OF assms(2,3)] by simp
  obtain new x where c: "yarnCatchBlock E d ?tr1 = (Inr (), ?tr1 @ new @ [x])"
    "execs (new @ [x]) =
       (if is_workspace_root E d then []
        else npm_execs E d (?tr1 @ [Log YarnAuditFailedFallingBack]))"
    using yarnCatchBlock_trace by blast
  have "runSecurityAuditForDirectory E d pm tr =
      (Inr (), tr @ (Call d # Exec ?cmd (Some d) # new @ [x]))"
    using assms(1) f c(1) by (simp add: runSecurityAuditForDirectory_unfold)
  then have "since tr (snd (runSecurityAuditForDirectory E d pm tr)) =
      Call d # Exec ?cmd (Some d) # new @ [x]"
    by (simp only: snd_conv since_append)
  then have e: "execs (since tr (snd (runSecurityAuditForDirectory E d pm tr))) =
      (?cmd, Some d) #
      (if is_workspace_root E d then []
       else npm_execs E d (tr @ [Call d, Exec ?cmd (Some d), Log YarnAuditFailedFallingBack]))"
    using c(2) by simp
  show ?thesis
    unfolding e using yarn_audit_command_not_npm [of pm]
    by (simp add: count_npm_audit)
qed

theorem yarn_failure_npm_fallback_witness:
  "manager yarn1_info = ManagerYarn \<and> \<not> js_not (version yarn1_info) \<and>
   isl (fst (runYarnAudit monorepo ''/proj/packages/a''
         (if type yarn1_info = Some Npm then None else type yarn1_info)
         ([] @ [Call ''/proj/packages/a'']))) \<and>
   \<not> is_workspace_root monorepo ''/proj/packages/a'' \<and>
   execs (since [] (snd (runSecurityAuditForDirectory monorepo ''/proj/packages/a''
       yarn1_info []))) =
     [(''yarn audit'', Some ''/proj/packages/a''),
      (''npm i --package-lock-only --ignore-scripts'', Some ''/proj/packages/a''),
      (''npm audit --json'', Some ''/proj/packages/a'')] \<and>
   count_list (execs (since [] (snd (runSecurityAuditForDirectory monorepo ''/proj/packages/a''
       yarn1_info [])))) (''npm audit --json'', Some ''/proj/packages/a'') = 1 \<and>
   isl (fst (runYarnAudit monorepo ''/proj''
         (if type yarn1_info = Some Npm then None else type yarn1_info)
         ([] @ [Call ''/proj'']))) \<and>
   is_workspace_root monorepo ''/proj'' \<and>
   execs (since [] (snd (runSecurityAuditForDirectory monorepo ''/proj'' yarn1_info []))) =
     [(''yarn audit'', Some ''/proj'')]"
proof -
  have h: "manager yarn1_info = ManagerYarn" "\<not> js_not (version yarn1_info)"
    by (simp_all add: yarn1_info_def js_not_def)
  have f: "isl (fst (runYarnAudit monorepo ''/proj/packages/a''
         (if type yarn1_info = Some Npm then None else type yarn1_info)
         ([] @ [Call ''/proj/packages/a''])))"
    "isl (fst (runYarnAudit monorepo ''/proj''
         (if type yarn1_info = Some Npm then None else type yarn1_info)
         ([] @ [Call ''/proj''])))"
    by (simp_all add: runYarnAudit_def exec_def monorepo_def yarn1_info_def)
  have r: "\<not> is_workspace_root monorepo ''/proj/packages/a''" "is_workspace_root monorepo ''/proj''"
    by (simp_all add: is_workspace_root_def getWorkspaceInfo_def getWorkspaceInfo_try_def
        monorepo_def)
  have c: "yarn_audit_command yarn1_info = ''yarn audit''"
    by (simp add: yarn_audit_command_def yarn1_info_def)
  have n: "npm_execs monorepo ''/proj/packages/a''
      [Call ''/proj/packages/a'', Exec ''yarn audit'' (Some ''/proj/packages/a''),
       Log YarnAuditFailedFallingBack] =
     [(''npm i --package-lock-only --ignore-scripts'', Some ''/proj/packages/a''),
      (''npm audit --json'', Some ''/proj/packages/a'')]"
    by (simp add: npm_execs_def existsSync_at_def monorepo_def)
  from yarn_failure_npm_fallback [OF h f(1)] yarn_failure_npm_fallback [OF h f(2)] h f r c n
  show ?thesis by simp
qed

text \<open>
  C10: when the manager is yarn and the version is null (or empty), the step starts no
  yarn command. Its first commands are those of one npm audit of the directory, run at
  once; they are there for the root of a project with workspaces as for any other
  directory. When that audit or its display fails, the catch clause of the yarn branch
  runs, which repeats the npm audit unless the directory is such a root; the second
  audit creates the lock file only if it is still missing then.
\<close>

theorem yarn_version_unknown_npm_audit:
  assumes "manager pm = ManagerYarn" and "js_not (version pm)"
  shows "execs (since tr (snd (runSecurityAuditForDirectory E d pm tr))) =
           npm_execs E d (tr @ [Call d, Log YarnNotFoundFallingBack]) @
           (if isl (fst (npmAttempt E d (tr @ [Call d, Log YarnNotFoundFallingBack]))) \<and>
               \<not> is_workspace_root E d
            then npm_execs E d
                   (snd (npmAttempt E d (tr @ [Call d, Log YarnNotFoundFallingBack])) @
                    [Log YarnAuditFailedFallingBack])
            else []) \<and>
         (\<forall>c w. (c, w) \<in> set (execs (since tr (snd (runSecurityAuditForDirectory E d pm tr))))
            \<longrightarrow> c \<noteq> ''yarn audit'' \<and> c \<noteq> ''yarn npm audit'')"
proof -
  let ?tr0 = "tr @ [Call d, Log YarnNotFoundFallingBack]"
  have a: "yarnAttempt E d pm (tr @ [Call d]) = npmAttempt E d ?tr0"
    using yarnAttempt_version_unknown [OF assms(2), of E d "tr @ [Call d]"] by simp
  obtain new1 where n: "snd (npmAttempt E d ?tr0) = ?tr0 @ new1" "execs new1 = npm_execs E d ?tr0"
    using npmAttempt_trace by blast
  obtain r tr1 where rt: "npmAttempt E d ?tr0 = (r, tr1)" by (cases "npmAttempt E d ?tr0")
  with n have tr1: "tr1 = ?tr0 @ new1" by simp
  have e: "execs (since tr (snd (runSecurityAuditForDirectory E d pm tr))) =
           npm_execs E d ?tr0 @
           (if isl (fst (npmAttempt E d ?tr0)) \<and> \<not> is_workspace_root E d
            then npm_execs E d (snd (npmAttempt E d ?tr0) @ [Log YarnAuditFailedFallingBack])
            else [])"
  proof (cases r)
    case (Inr u)
    have "runSecurityAuditForDirectory E d pm tr =
        (Inr (), tr @ (Call d # Log YarnNotFoundFallingBack # new1))"
      using assms(1) a rt tr1 Inr by (simp add: runSecurityAuditForDirectory_unfold)
    then have "since tr (snd (runSecurityAuditForDirectory E d pm tr)) =
        Call d # Log YarnNotFoundFallingBack # new1"
      by (simp only: snd_conv since_append)
    with n(2) rt Inr show ?thesis by simp
  next
    case (Inl err)
    obtain new2 x where c: "yarnCatchBlock E d tr1 = (Inr (), tr1 @ new2 @ [x])"
      "execs (new2 @ [x]) =
         (if is_workspace_root E d then []
          else npm_execs E d (tr1 @ [Log YarnAuditFailedFallingBack]))"
      using yarnCatchBlock_trace by blast
    have "runSecurityAuditForDirectory E d pm tr =
        (Inr (), tr @ (Call d # Log YarnNotFoundFallingBack # new1 @ new2 @ [x]))"
      using assms(1) a rt tr1 Inl c(1) by (simp add: runSecurityAuditForDirectory_unfold)
    then have "since tr (snd (runSecurityAuditForDirectory E d pm tr)) =
        Call d # Log YarnNotFoundFallingBack # new1 @ new2 @ [x]"
      by (simp only: snd_conv since_append)
    with n(2) c(2) rt Inl show ?thesis by (simp add: execs_append)
  qed
  have "\<forall>h c w. (c, w) \<in> set (npm_execs E d h) \<longrightarrow> c \<noteq> ''yarn audit'' \<and> c \<noteq> ''yarn npm audit''"
    by (simp add: npm_execs_def)
  with e show ?thesis by auto
qed

theorem yarn_version_unknown_npm_audit_witness:
  "manager yarn_unknown_info = ManagerYarn \<and> js_not (version yarn_unknown_info) \<and>
   is_workspace_root install_only_repo ''/proj'' \<and>
   execs (since [] (snd (runSecurityAuditForDirectory install_only_repo ''/proj''
       yarn_unknown_info []))) =
     [(''npm i --package-lock-only --ignore-scripts'', Some ''/proj''),
      (''npm audit --json'', Some ''/proj'')] \<and>
   \<not> is_workspace_root install_only_repo ''/proj/packages/b'' \<and>
   isl (fst (npmAttempt install_only_repo ''/proj/packages/b''
         ([] @ [Call ''/proj/packages/b'', Log YarnNotFoundFallingBack]))) \<and>
   execs (since [] (snd (runSecurityAuditForDirectory install_only_repo ''/proj/packages/b''
       yarn_unknown_info []))) =
     [(''npm i --package-lock-only --ignore-scripts'', Some ''/proj/packages/b''),
      (''npm audit --json'', Some ''/proj/packages/b''),
      (''npm audit --json'', Some ''/proj/packages/b'')] \<and>
   fst (runNpmAudit empty_output_repo ''/proj/packages/b''
         ([] @ [Call ''/proj/packages/b'', Log YarnNotFoundFallingBack])) = Inr (JObj []) \<and>
   isl (fst (npmAttempt empty_output_repo ''/proj/packages/b''
         ([] @ [Call ''/proj/packages/b'', Log YarnNotFoundFallingBack]))) \<and>
   execs (since [] (snd (runSecurityAuditForDirectory empty_output_repo ''/proj/packages/b''
       yarn_unknown_info []))) =
     [(''npm i --package-lock-only --ignore-scripts'', Some ''/proj/packages/b''),
      (''npm audit --json'', Some ''/proj/packages/b''),
      (''npm audit --json'', Some ''/proj/packages/b'')]"
proof -
  have h: "manager yarn_unknown_info = ManagerYarn" "js_not (version yarn_unknown_info)"
    by (simp_all add: yarn_unknown_info_def js_not_def)
  have r: "is_workspace_root install_only_repo ''/proj''"
    "\<not> is_workspace_root install_only_repo ''/proj/packages/b''"
    "\<not> is_workspace_root empty_output_repo ''/proj/packages/b''"
    by (simp_all add: is_workspace_root_def getWorkspaceInfo_def getWorkspaceInfo_try_def
        install_only_repo_def empty_output_repo_def monorepo_def)
  have a1: "npmAttempt install_only_repo ''/proj''
      [Call ''/proj'', Log YarnNotFoundFallingBack] =
     (Inl ExecError, [Call ''/proj'', Log YarnNotFoundFallingBack, Log CreatingPackageLock,
        Exec ''npm i --package-lock-only --ignore-scripts'' (Some ''/proj''),
        Exec ''npm audit --json'' (Some ''/proj'')])"
    by (simp add: run_defs install_only_repo_def monorepo_def)
  have a2: "npmAttempt install_only_repo ''/proj/packages/b''
      [Call ''/proj/packages/b'', Log YarnNotFoundFallingBack] =
     (Inl ExecError, [Call ''/proj/packages/b'', Log YarnNotFoundFallingBack,
        Log CreatingPackageLock,
        Exec ''npm i --package-lock-only --ignore-scripts'' (Some ''/proj/packages/b''),
        Exec ''npm audit --json'' (Some ''/proj/packages/b'')])"
    by (simp add: run_defs install_only_repo_def monorepo_def)
  have a3: "npmAttempt empty_output_repo ''/proj/packages/b''
      [Call ''/proj/packages/b'', Log YarnNotFoundFallingBack] =
     (Inl TypeError, [Call ''/proj/packages/b'', Log YarnNotFoundFallingBack,
        Log CreatingPackageLock,
        Exec ''npm i --package-lock-only --ignore-scripts'' (Some ''/proj/packages/b''),
        Exec ''npm audit --json'' (Some ''/proj/packages/b''), Log VulnerabilitiesFound])"
    "fst (runNpmAudit empty_output_repo ''/proj/packages/b''
      [Call ''/proj/packages/b'', Log YarnNotFoundFallingBack]) = Inr (JObj [])"
    by (simp_all add: run_defs empty_output_repo_def monorepo_def)
  have n: "npm_execs install_only_repo ''/proj'' [Call ''/proj'', Log YarnNotFoundFallingBack] =
     [(''npm i --package-lock-only --ignore-scripts'', Some ''/proj''),
      (''npm audit --json'', Some ''/proj'')]"
    "npm_execs install_only_repo ''/proj/packages/b''
       [Call ''/proj/packages/b'', Log YarnNotFoundFallingBack] =
     [(''npm i --package-lock-only --ignore-scripts'', Some ''/proj/packages/b''),
      (''npm audit --json'', Some ''/proj/packages/b'')]"
    "npm_execs empty_output_repo ''/proj/packages/b''
       [Call ''/proj/packages/b'', Log YarnNotFoundFallingBack] =
     [(''npm i --package-lock-only --ignore-scripts'', Some ''/proj/packages/b''),
      (''npm audit --json'', Some ''/proj/packages/b'')]"
    "npm_execs install_only_repo ''/proj/packages/b''
       [Call ''/proj/packages/b'', Log YarnNotFoundFallingBack, Log CreatingPackageLock,
        Exec ''npm i --package-lock-only --ignore-scripts'' (Some ''/proj/packages/b''),
        Exec ''npm audit --json'' (Some ''/proj/packages/b''), Log YarnAuditFailedFallingBack] =
     [(''npm audit --json'', Some ''/proj/packages/b'')]"
    "npm_execs empty_output_repo ''/proj/packages/b''
       [Call ''/proj/packages/b'', Log YarnNotFoundFallingBack, Log CreatingPackageLock,
        Exec ''npm i --package-lock-only --ignore-scripts'' (Some ''/proj/packages/b''),
        Exec ''npm audit --json'' (Some ''/proj/packages/b''), Log VulnerabilitiesFound,
        Log YarnAuditFailedFallingBack] =
     [(''npm audit --json'', Some ''/proj/packages/b'')]"
    by (simp_all add: npm_execs_def existsSync_at_def lock_written_def install_only_repo_def
        empty_output_repo_def monorepo_def)
  from yarn_version_unknown_npm_audit [OF h, of "[]" install_only_repo "''/proj''"]
    yarn_version_unknown_npm_audit [OF h, of "[]" install_only_repo "''/proj/packages/b''"]
    yarn_version_unknown_npm_audit [OF h, of "[]" empty_output_repo "''/proj/packages/b''"]
    h r a1 a2 a3 n
  show ?thesis by simp
qed



section \<open>Results: the workspace walk\<close>




text \<open>
  C4, as the spec states it, fails for a pattern in which \<open>/*\<close> is not at the end:
  \<open>replace\<close> removes its first occurrence wherever it is. For \<open>packages/**\<close>, which
  has no trailing \<open>/*\<close>, the base path is \<open>packages*\<close> and not the pattern itself;
  for \<open>apps/*/packages/*\<close> it is \<open>apps/packages/*\<close> and not \<open>apps/*/packages\<close>.
\<close>

theorem basePath_of_removes_first_slash_star:
  "basePath_of ''packages/**'' = ''packages*'' \<and>
   strip_trailing_slash_star ''packages/**'' = ''packages/**'' \<and>
   basePath_of ''apps/*/packages/*'' = ''apps/packages/*'' \<and>
   strip_trailing_slash_star ''apps/*/packages/*'' = ''apps/*/packages''"
  by (simp add: basePath_of_def strip_trailing_slash_star_def suffix_def)

text \<open>
  C4, amended: the base path of a pattern is the pattern without its first \<open>/*\<close>. A
  pattern that has no \<open>/*\<close> is its own base path, and a pattern whose only \<open>/*\<close> is
  at its end loses it: on these the code and the spec's stripping agree. Nothing is
  expanded as a glob: every directory audited after the root is an entry that
  \<open>readdirSync\<close> lists for the base path of one of the patterns, joined to that base
  path, and it is a directory that holds a manifest.
\<close>

theorem workspace_base_path:
  "(\<not> contains ''/*'' pattern \<longrightarrow>
      basePath_of pattern = pattern \<and> strip_trailing_slash_star pattern = pattern) \<and>
   (\<not> contains ''/*'' (pre @ ''/'') \<longrightarrow>
      basePath_of (pre @ ''/*'' @ post) = pre @ post \<and>
      strip_trailing_slash_star (pre @ ''/*'') = basePath_of (pre @ ''/*'')) \<and>
   (\<forall>d \<in> set (tl (calls (since tr (snd (runSecurityAudit E pm tr))))).
      \<exists>p \<in> set (packages (getWorkspaceInfo E (cwd E))). \<exists>entries entry.
        readdirSync E (path_join E [cwd E, basePath_of p]) = Some entries \<and>
        entry \<in> set entries \<and> d = path_join E [cwd E, basePath_of p, entry] \<and>
        statSync_isDirectory E d = Some True \<and> existsSync E (path_join E [d, ''package.json'']))"
proof -
  have 1: "\<not> contains ''/*'' pattern \<Longrightarrow>
      basePath_of pattern = pattern \<and> strip_trailing_slash_star pattern = pattern"
    using not_contains_not_suffix [of "''/*''" pattern]
    by (simp add: basePath_of_def replace_absent strip_trailing_slash_star_def)
  have 2: "\<not> contains ''/*'' (pre @ ''/'') \<Longrightarrow>
      basePath_of (pre @ ''/*'' @ post) = pre @ post \<and>
      strip_trailing_slash_star (pre @ ''/*'') = basePath_of (pre @ ''/*'')"
    using replace_slash_star_first [of pre "[]" post] replace_slash_star_first [of pre "[]" "[]"]
      suffix_slash_star_strip [of pre]
    by (simp add: basePath_of_def)
  have 3: "\<exists>p \<in> set (packages (getWorkspaceInfo E (cwd E))). \<exists>entries entry.
        readdirSync E (path_join E [cwd E, basePath_of p]) = Some entries \<and>
        entry \<in> set entries \<and> d = path_join E [cwd E, basePath_of p, entry] \<and>
        statSync_isDirectory E d = Some True \<and> existsSync E (path_join E [d, ''package.json''])"
    if d: "d \<in> set (tl (calls (since tr (snd (runSecurityAudit E pm tr)))))" for d
  proof -
    let ?pats = "packages (getWorkspaceInfo E (cwd E))"
    from d have "d \<in> set (fst (visitedPatterns E ?pats))"
      by (simp add: runSecurityAudit_calls split: if_splits)
    with visitedPatterns_prefix [of E ?pats]
    have "d \<in> set (concat (map (workspace_members E) ?pats))"
      using set_mono_prefix by blast
    then obtain p where "p \<in> set ?pats" "d \<in> set (workspace_members E p)" by auto
    with workspace_members_elem [of d E p] show ?thesis by blast
  qed
  from 1 2 3 show ?thesis by blast
qed

theorem workspace_base_path_witness:
  "\<not> contains ''/*'' ''apps/web'' \<and> basePath_of ''apps/web'' = ''apps/web'' \<and>
   \<not> contains ''/*'' (''packages'' @ ''/'') \<and> basePath_of ''packages/*'' = ''packages'' \<and>
   strip_trailing_slash_star ''packages/*'' = ''packages'' \<and>
   ''/proj/packages/a'' \<in> set (tl (calls (since [] (snd (runSecurityAudit monorepo yarn1_info []))))) \<and>
   (\<exists>p \<in> set (packages (getWorkspaceInfo monorepo (cwd monorepo))). \<exists>entries entry.
      readdirSync monorepo (path_join monorepo [cwd monorepo, basePath_of p]) = Some entries \<and>
      entry \<in> set entries \<and>
      ''/proj/packages/a'' = path_join monorepo [cwd monorepo, basePath_of p, entry] \<and>
      statSync_isDirectory monorepo ''/proj/packages/a'' = Some True \<and>
      existsSync monorepo (path_join monorepo [''/proj/packages/a'', ''package.json'']))"
proof -
  have a: "\<not> contains ''/*'' ''apps/web''" "\<not> contains ''/*'' (''packages'' @ ''/'')"
    by simp_all
  have c: "''/proj/packages/a'' \<in>
      set (tl (calls (since [] (snd (runSecurityAudit monorepo yarn1_info [])))))"
    by (simp add: runSecurityAudit_calls getWorkspaceInfo_def getWorkspaceInfo_try_def
        is_member_def basePath_of_def monorepo_def)
  from workspace_base_path [of "''apps/web''" "''packages''" "[]" "[]" monorepo yarn1_info] a c
  show ?thesis by (simp del: contains.simps)
qed

end
